theory Spec2Isabelle
  imports Complex_Main "HOL-Library.AList"
begin

section \<open>GUT matrix: scoring model, rate governor and merge engine\<close>

text \<open>
  A shallow embedding of the server side of the collaborative prioritisation tool:
  \<^verbatim>\<open>types.ts\<close>, \<open>utils.ts\<close>, \<open>rateLimit.ts\<close>, \<open>api/list/index.ts\<close> (create) and
  \<open>api/list/[slug].ts\<close> (update).

  Conventions of the model.
  \<^item> A JavaScript \<open>number\<close> that carries a factor, a score, a version, a counter or a
    time in milliseconds is an \<open>int\<close>: the data model has integer factors, and on integers
    below \<open>2^53\<close> the arithmetic of the source is exact. Means are \<open>rat\<close>.
  \<^item> An optional field (\<open>x?: T\<close>, \<open>Partial<T>\<close>) is an \<open>option\<close>; \<open>None\<close> is \<open>undefined\<close>.
  \<^item> \<open>Record<string, UserScore>\<close> is an association list in insertion order, as
    \<open>Object.values\<close> enumerates it; \<open>{...m, [k]: v}\<close> is \<open>AList.update k v m\<close> (an existing
    key keeps its place, a new key goes last).
  \<^item> What the source draws from its environment (clock, random numbers, fresh UUIDs, the
    byte length of the JSON text) is a parameter of the function that draws it.
  \<^item> A request body has the shape of its TypeScript type. What the handlers answer when
    something throws (status 500: a body of another shape, a failure of the key-value
    store) is outside the model, and so is the expiry of stored values.
\<close>

subsection \<open>types.ts\<close>

record UserScore =
  us_g :: int
  us_u :: int
  us_t :: int
  us_score :: int

text \<open>\<open>Partial<UserScore>\<close>: every field may be missing.\<close>

record PartialUserScore =
  pu_g :: "int option"
  pu_u :: "int option"
  pu_t :: "int option"
  pu_score :: "int option"

record AverageScore =
  av_g :: rat
  av_u :: rat
  av_t :: rat
  av_score :: rat
  av_count :: nat

type_synonym ScoreMap = "(string \<times> UserScore) list"

record GutItem =
  item_id :: string
  label :: string
  scores :: ScoreMap
  avgScore :: "AverageScore option"
  item_notes :: "string option"

record Scale =
  smin :: int
  smax :: int

record PartialScale =
  ps_min :: "int option"
  ps_max :: "int option"

record GutList =
  title :: string
  items :: "GutItem list"
  scale :: Scale
  updatedAt :: string
  version :: int

text \<open>
  An element of \<open>UpdateListRequest.items\<close>, of type \<open>Partial<GutItem> | UserItemUpdate\<close>: the
  union of the fields of both shapes, each optional.
\<close>

record IncomingItem =
  in_id :: "string option"
  in_label :: "string option"
  in_scores :: "ScoreMap option"
  in_avgScore :: "AverageScore option"
  in_notes :: "string option"
  in_g :: "int option"
  in_u :: "int option"
  in_t :: "int option"

record UpdateListRequest =
  rq_title :: "string option"
  rq_items :: "IncomingItem list option"
  rq_scale :: "PartialScale option"
  rq_version :: "int option"
  rq_userId :: "string option"

record CreateListRequest =
  cr_title :: "string option"
  cr_scale :: "PartialScale option"

subsection \<open>utils.ts: the scoring model\<close>

definition calculateScore :: "int \<Rightarrow> int \<Rightarrow> int \<Rightarrow> int" where
  "calculateScore g u t = g * u * t"

text \<open>\<open>Math.max(min, Math.min(value, max))\<close>\<close>

definition clamp :: "int \<Rightarrow> int \<Rightarrow> int \<Rightarrow> int" where
  "clamp v lo hi = max lo (min v hi)"

definition normalizeScale :: "PartialScale option \<Rightarrow> int \<Rightarrow> int \<Rightarrow> Scale" where
  "normalizeScale sc envMin envMax =
     (let mn = (case sc of None \<Rightarrow> 1 | Some s \<Rightarrow> (case ps_min s of None \<Rightarrow> 1 | Some v \<Rightarrow> v));
          mx = (case sc of None \<Rightarrow> 5 | Some s \<Rightarrow> (case ps_max s of None \<Rightarrow> 5 | Some v \<Rightarrow> v));
          normalizedMin = clamp mn 1 envMin;
          normalizedMax = clamp mx 2 envMax
      in if normalizedMin \<ge> normalizedMax then \<lparr>smin = 1, smax = 5\<rparr>
         else \<lparr>smin = normalizedMin, smax = normalizedMax\<rparr>)"

text \<open>
  \<open>Number(x) || d\<close> on an optional number: \<open>undefined\<close> becomes \<open>NaN\<close>, and both \<open>NaN\<close> and
  \<open>0\<close> are falsy, so the default \<open>d\<close> is taken for a missing value and for zero.
\<close>

definition numberOr :: "int option \<Rightarrow> int \<Rightarrow> int" where
  "numberOr x d = (case x of None \<Rightarrow> d | Some v \<Rightarrow> if v = 0 then d else v)"

definition normalizeUserScore :: "PartialUserScore \<Rightarrow> Scale \<Rightarrow> UserScore" where
  "normalizeUserScore sc scl =
     (let g = clamp (numberOr (pu_g sc) (smin scl)) (smin scl) (smax scl);
          u = clamp (numberOr (pu_u sc) (smin scl)) (smin scl) (smax scl);
          t = clamp (numberOr (pu_t sc) (smin scl)) (smin scl) (smax scl)
      in \<lparr>us_g = g, us_u = u, us_t = t, us_score = calculateScore g u t\<rparr>)"

text \<open>\<open>Math.round\<close> rounds to the nearest integer, a tie going up (towards \<open>+\<infinity>\<close>).\<close>

definition mathRound :: "rat \<Rightarrow> int" where
  "mathRound x = \<lfloor>x + 1 / 2\<rfloor>"

text \<open>The accumulator of the \<open>reduce\<close> in \<open>calculateAverageScore\<close>, and its step.\<close>

definition sumStep :: "UserScore \<Rightarrow> UserScore \<Rightarrow> UserScore" where
  "sumStep acc s =
     \<lparr>us_g = us_g acc + us_g s, us_u = us_u acc + us_u s,
      us_t = us_t acc + us_t s, us_score = us_score acc + us_score s\<rparr>"

definition round1 :: "int \<Rightarrow> nat \<Rightarrow> rat" where
  "round1 sm n = of_int (mathRound ((of_int sm / of_nat n) * 10)) / 10"

definition calculateAverageScore :: "ScoreMap \<Rightarrow> AverageScore option" where
  "calculateAverageScore scs =
     (let userScores = map snd scs
      in if length userScores = 0 then None
         else
           let tot = foldl sumStep \<lparr>us_g = 0, us_u = 0, us_t = 0, us_score = 0\<rparr> userScores;
               count = length userScores
           in Some \<lparr>av_g = round1 (us_g tot) count,
                     av_u = round1 (us_u tot) count,
                     av_t = round1 (us_t tot) count,
                     av_score = round1 (us_score tot) count,
                     av_count = count\<rparr>)"

text \<open>A full \<open>UserScore\<close> passed where a \<open>Partial<UserScore>\<close> is expected.\<close>

definition asPartialScore :: "UserScore \<Rightarrow> PartialUserScore" where
  "asPartialScore s =
     \<lparr>pu_g = Some (us_g s), pu_u = Some (us_u s), pu_t = Some (us_t s),
      pu_score = Some (us_score s)\<rparr>"

definition mergeUserScore :: "GutItem \<Rightarrow> string \<Rightarrow> UserScore \<Rightarrow> Scale \<Rightarrow> GutItem" where
  "mergeUserScore item userId userScore scl =
     (let normalizedScore = normalizeUserScore (asPartialScore userScore) scl;
          updatedScores = AList.update userId normalizedScore (scores item);
          avg = calculateAverageScore updatedScores
      in item\<lparr>scores := updatedScores, avgScore := avg\<rparr>)"

subsection \<open>utils.ts: strings, items and validation\<close>

text \<open>
  \<open>String.prototype.trim\<close>, on the ASCII white space and line terminators (the source also
  strips the Unicode ones, which a byte string does not single out).
\<close>

definition isSpace :: "char \<Rightarrow> bool" where
  "isSpace c \<longleftrightarrow> c = CHR '' '' \<or> c = CHR 0x09 \<or> c = CHR 0x0A \<or> c = CHR 0x0B
     \<or> c = CHR 0x0C \<or> c = CHR 0x0D"

definition trim :: "string \<Rightarrow> string" where
  "trim s = rev (dropWhile isSpace (rev (dropWhile isSpace s)))"

text \<open>\<open>xs.slice(0, n)\<close>: a negative \<open>n\<close> counts from the end.\<close>

definition slice0 :: "int \<Rightarrow> 'a list \<Rightarrow> 'a list" where
  "slice0 n xs = (if 0 \<le> n then take (nat n) xs else take (length xs - nat (- n)) xs)"

text \<open>
  \<open>normalizeItem\<close>. The argument \<open>uuid\<close> is what \<open>crypto.randomUUID()\<close> returns when the
  item has no id; \<open>scale\<close> and \<open>maxItems\<close> are unused, as in the source.
\<close>

definition normalizeItem :: "IncomingItem \<Rightarrow> Scale \<Rightarrow> int \<Rightarrow> string \<Rightarrow> GutItem" where
  "normalizeItem item scl maxItems uuid =
     (let scs = (case in_scores item of None \<Rightarrow> [] | Some m \<Rightarrow> m);
          lbl = trim (slice0 200 (case in_label item of None \<Rightarrow> [] | Some l \<Rightarrow> l))
      in \<lparr>item_id = (case in_id item of None \<Rightarrow> uuid | Some i \<Rightarrow> if i = [] then uuid else i),
          label = (if lbl = [] then ''Untitled Item'' else lbl),
          scores = scs,
          avgScore = in_avgScore item,
          item_notes = (case in_notes item of None \<Rightarrow> None
                        | Some n \<Rightarrow> if n = [] then None else Some (trim (slice0 1024 n)))\<rparr>)"

text \<open>A stored \<open>GutItem\<close> passed where a \<open>Partial<GutItem>\<close> is expected.\<close>

definition asPartialItem :: "GutItem \<Rightarrow> IncomingItem" where
  "asPartialItem e =
     \<lparr>in_id = Some (item_id e), in_label = Some (label e), in_scores = Some (scores e),
      in_avgScore = avgScore e, in_notes = item_notes e,
      in_g = None, in_u = None, in_t = None\<rparr>"

text \<open>
  \<open>validateUserId\<close>: the pattern
  \<^verbatim>\<open>/^[a-f0-9]{8}-[a-f0-9]{4}-[a-f0-9]{4}-[a-f0-9]{4}-[a-f0-9]{12}$/i\<close>,
  matched by consuming the string from the left.
\<close>

definition isHex :: "char \<Rightarrow> bool" where
  "isHex c \<longleftrightarrow> c \<in> set ''0123456789abcdefABCDEF''"

fun hexRun :: "nat \<Rightarrow> string \<Rightarrow> string option" where
  "hexRun 0 s = Some s"
| "hexRun (Suc n) [] = None"
| "hexRun (Suc n) (c # cs) = (if isHex c then hexRun n cs else None)"

fun dash :: "string \<Rightarrow> string option" where
  "dash [] = None"
| "dash (c # cs) = (if c = CHR ''-'' then Some cs else None)"

definition validateUserId :: "string \<Rightarrow> bool" where
  "validateUserId userId =
     (case Option.bind (Option.bind (Option.bind (Option.bind (Option.bind (Option.bind
             (Option.bind (Option.bind (hexRun 8 userId) dash) (hexRun 4)) dash) (hexRun 4)) dash)
             (hexRun 4)) dash) (hexRun 12)
      of Some [] \<Rightarrow> True | _ \<Rightarrow> False)"

definition sanitizeTitle :: "string option \<Rightarrow> string" where
  "sanitizeTitle ttl = (case ttl of None \<Rightarrow> [] | Some s \<Rightarrow> slice0 200 (trim s))"

datatype ErrorMessage =
    InvalidUserIdFormat
  | TooManyItems int
  | ScaleMinNotLessThanMax
  | InvalidRequest
  | ListNotFound
  | ListTooLarge nat int

record Validation =
  valid :: bool
  verror :: "ErrorMessage option"

definition validateList :: "UpdateListRequest \<Rightarrow> int \<Rightarrow> Validation" where
  "validateList data maxItems =
     (if (case rq_items data of None \<Rightarrow> False | Some its \<Rightarrow> int (length its) > maxItems)
      then \<lparr>valid = False, verror = Some (TooManyItems maxItems)\<rparr>
      else if (case rq_scale data of None \<Rightarrow> False
               | Some sc \<Rightarrow> (case (ps_min sc, ps_max sc) of
                             (Some mn, Some mx) \<Rightarrow> mn \<ge> mx | _ \<Rightarrow> False))
      then \<lparr>valid = False, verror = Some ScaleMinNotLessThanMax\<rparr>
      else \<lparr>valid = True, verror = None\<rparr>)"

definition getListKey :: "string \<Rightarrow> string" where
  "getListKey slug = ''list:'' @ slug"

text \<open>
  \<open>generateSlug\<close>; \<open>suffix\<close> is the text made of the four random bytes. Lower-casing is
  the ASCII one.
\<close>

definition toLower :: "char \<Rightarrow> char" where
  "toLower c = (let n = (of_char c :: nat) in if 65 \<le> n \<and> n \<le> 90 then char_of (n + 32) else c)"

definition isSlugChar :: "char \<Rightarrow> bool" where
  "isSlugChar c \<longleftrightarrow> c \<in> set ''abcdefghijklmnopqrstuvwxyz0123456789''"

function dashRuns :: "string \<Rightarrow> string" where
  "dashRuns [] = []"
| "dashRuns (c # cs) =
     (if isSlugChar c then c # dashRuns cs
      else CHR ''-'' # dashRuns (dropWhile (\<lambda>d. \<not> isSlugChar d) cs))"
  by pat_completeness auto
termination
  by (relation "measure length") (auto simp: length_dropWhile_le less_Suc_eq_le)

definition stripDashes :: "string \<Rightarrow> string" where
  "stripDashes s =
     rev (dropWhile (\<lambda>c. c = CHR ''-'') (rev (dropWhile (\<lambda>c. c = CHR ''-'') s)))"

definition generateSlug :: "string \<Rightarrow> string \<Rightarrow> string" where
  "generateSlug ttl suffix =
     (let base = (if ttl = [] then []
                  else slice0 50 (stripDashes (dashRuns (map toLower (trim ttl)))))
      in if base = [] then suffix else base @ ''-'' @ suffix)"

subsection \<open>rateLimit.ts: the rate governor\<close>

record RateLimitEntry =
  count :: int
  resetAt :: int

type_synonym RateLimitStore = "string \<rightharpoonup> RateLimitEntry"

text \<open>
  What one call of \<open>checkRateLimit\<close> draws from its environment: \<open>tk_sweep\<close> is \<open>Some t\<close>
  when \<open>Math.random() < 0.01\<close> held and \<open>cleanupExpired\<close> ran with the clock at \<open>t\<close>, and
  \<open>tk_now\<close> is the clock read by \<open>checkRateLimit\<close> itself (milliseconds).
\<close>

record Tick =
  tk_sweep :: "int option"
  tk_now :: int

definition cleanupExpired :: "int \<Rightarrow> RateLimitStore \<Rightarrow> RateLimitStore" where
  "cleanupExpired now st =
     (\<lambda>k. case st k of None \<Rightarrow> None
          | Some v \<Rightarrow> if now > resetAt v then None else Some v)"

record RateLimitResult =
  allowed :: bool
  retryAfter :: "int option"
  current :: int

definition checkRateLimit ::
  "string \<Rightarrow> int \<Rightarrow> int \<Rightarrow> Tick \<Rightarrow> RateLimitStore \<Rightarrow> RateLimitResult \<times> RateLimitStore" where
  "checkRateLimit key limit windowMs tick st0 =
     (let st = (case tk_sweep tick of None \<Rightarrow> st0 | Some t \<Rightarrow> cleanupExpired t st0);
          now = tk_now tick;
          fresh = (\<lparr>allowed = True, retryAfter = None, current = 1\<rparr>,
                   st(key \<mapsto> \<lparr>count = 1, resetAt = now + windowMs\<rparr>))
      in case st key of
           None \<Rightarrow> fresh
         | Some entry \<Rightarrow>
             if now > resetAt entry then fresh
             else if count entry \<ge> limit then
               (\<lparr>allowed = False,
                 retryAfter = Some \<lceil>(of_int (resetAt entry - now) :: rat) / 1000\<rceil>,
                 current = count entry\<rparr>, st)
             else
               (\<lparr>allowed = True, retryAfter = None, current = count entry + 1\<rparr>,
                st(key \<mapsto> entry\<lparr>count := count entry + 1\<rparr>)))"

text \<open>
  The environment bindings. A variable that is unset or empty is \<open>None\<close>, so that
  \<open>Number(env.X || d)\<close> is \<open>envNumber (X env) d\<close>.
\<close>

record Env =
  MAX_ITEMS :: "int option"
  MIN_SCALE :: "int option"
  MAX_SCALE :: "int option"
  ENABLE_RATE_LIMITING :: string
  MAX_SAVES_PER_USER_PER_MINUTE :: "int option"
  MAX_SAVES_PER_USER_PER_HOUR :: "int option"
  MAX_LISTS_PER_USER_PER_DAY :: "int option"
  MAX_SAVES_PER_LIST_PER_MINUTE :: "int option"
  LIST_MAX_SIZE_KB :: "int option"
  LIST_TTL_DAYS :: "int option"

definition envNumber :: "int option \<Rightarrow> int \<Rightarrow> int" where
  "envNumber x d = (case x of None \<Rightarrow> d | Some v \<Rightarrow> v)"

datatype Action = Save | Create

text \<open>
  The message of a rejection is rendered by the source from these four values
  (\<open>`${message}. Try again in ${retryAfter}s. (${current}/${limit})`\<close>); the model keeps the
  values.
\<close>

record RateLimitError =
  re_message :: string
  re_retryAfter :: "int option"
  re_current :: int
  re_limit :: int

record LimitResult =
  lim_allowed :: bool
  lim_error :: "RateLimitError option"
  lim_retryAfter :: "int option"

record Check =
  ck_key :: string
  ck_limit :: int
  ck_window :: int
  ck_message :: string

definition limits :: "string \<Rightarrow> Action \<Rightarrow> Env \<Rightarrow> Check list" where
  "limits userId action env =
     (case action of
        Save \<Rightarrow>
          [\<lparr>ck_key = ''user:'' @ userId @ '':save:minute'',
            ck_limit = envNumber (MAX_SAVES_PER_USER_PER_MINUTE env) 2,
            ck_window = 60 * 1000,
            ck_message = ''Too many saves per minute''\<rparr>,
           \<lparr>ck_key = ''user:'' @ userId @ '':save:hour'',
            ck_limit = envNumber (MAX_SAVES_PER_USER_PER_HOUR env) 30,
            ck_window = 60 * 60 * 1000,
            ck_message = ''Too many saves per hour''\<rparr>]
      | Create \<Rightarrow>
          [\<lparr>ck_key = ''user:'' @ userId @ '':create:day'',
            ck_limit = envNumber (MAX_LISTS_PER_USER_PER_DAY env) 10,
            ck_window = 24 * 60 * 60 * 1000,
            ck_message = ''Too many lists created today''\<rparr>])"

text \<open>
  The loop \<open>for (const check of checksToRun)\<close>; the \<open>i\<close>-th call of \<open>checkRateLimit\<close> in
  it draws \<open>ticks i\<close>.
\<close>

fun runChecks ::
  "Check list \<Rightarrow> nat \<Rightarrow> (nat \<Rightarrow> Tick) \<Rightarrow> RateLimitStore \<Rightarrow> LimitResult \<times> RateLimitStore" where
  "runChecks [] i ticks st = (\<lparr>lim_allowed = True, lim_error = None, lim_retryAfter = None\<rparr>, st)"
| "runChecks (c # cs) i ticks st =
     (case checkRateLimit (ck_key c) (ck_limit c) (ck_window c) (ticks i) st of
        (result, st') \<Rightarrow>
          if \<not> allowed result then
            (\<lparr>lim_allowed = False,
              lim_error = Some \<lparr>re_message = ck_message c, re_retryAfter = retryAfter result,
                                re_current = current result, re_limit = ck_limit c\<rparr>,
              lim_retryAfter = retryAfter result\<rparr>, st')
          else runChecks cs (Suc i) ticks st')"

definition checkUserRateLimits ::
  "string \<Rightarrow> Action \<Rightarrow> Env \<Rightarrow> (nat \<Rightarrow> Tick) \<Rightarrow> RateLimitStore \<Rightarrow> LimitResult \<times> RateLimitStore" where
  "checkUserRateLimits userId action env ticks st =
     (if ENABLE_RATE_LIMITING env \<noteq> ''true''
      then (\<lparr>lim_allowed = True, lim_error = None, lim_retryAfter = None\<rparr>, st)
      else runChecks (limits userId action env) 0 ticks st)"

definition checkListRateLimits ::
  "string \<Rightarrow> Env \<Rightarrow> Tick \<Rightarrow> RateLimitStore \<Rightarrow> LimitResult \<times> RateLimitStore" where
  "checkListRateLimits slug env tick st =
     (if ENABLE_RATE_LIMITING env \<noteq> ''true''
      then (\<lparr>lim_allowed = True, lim_error = None, lim_retryAfter = None\<rparr>, st)
      else
        let limit = envNumber (MAX_SAVES_PER_LIST_PER_MINUTE env) 10;
            window = 60 * 1000
        in case checkRateLimit (''list:'' @ slug @ '':save:minute'') limit window tick st of
             (result, st') \<Rightarrow>
               if \<not> allowed result then
                 (\<lparr>lim_allowed = False,
                   lim_error = Some \<lparr>re_message = ''This list is being updated too frequently'',
                                     re_retryAfter = retryAfter result,
                                     re_current = current result, re_limit = limit\<rparr>,
                   lim_retryAfter = retryAfter result\<rparr>, st')
               else (\<lparr>lim_allowed = True, lim_error = None, lim_retryAfter = None\<rparr>, st'))"

text \<open>
  \<open>checkListSize\<close>. \<open>bytes\<close> is \<open>new TextEncoder().encode(data).length\<close>, the UTF-8 length
  of the JSON text.
\<close>

record SizeResult =
  size_allowed :: bool
  size_error :: "ErrorMessage option"

definition checkListSize :: "nat \<Rightarrow> Env \<Rightarrow> SizeResult" where
  "checkListSize bytes env =
     (let maxSizeKB = envNumber (LIST_MAX_SIZE_KB env) 100;
          sizeKB = (of_nat bytes :: rat) / 1024
      in if sizeKB > of_int maxSizeKB
         then \<lparr>size_allowed = False, size_error = Some (ListTooLarge bytes maxSizeKB)\<rparr>
         else \<lparr>size_allowed = True, size_error = None\<rparr>)"

subsection \<open>The request handlers\<close>

text \<open>
  What a handler draws from its environment while it serves one request: the draws of its
  \<open>checkRateLimit\<close> calls (the user checks in order, then the list check), the results of
  \<open>crypto.randomUUID()\<close> (by the \<open>map\<close> that asks and the index of the element), the text
  of \<open>new Date().toISOString()\<close>, the UTF-8 length of \<open>JSON.stringify\<close> of a list, and
  the random suffix of a slug.
\<close>

record World =
  w_userTicks :: "nat \<Rightarrow> Tick"
  w_listTick :: Tick
  w_uuid :: "nat \<Rightarrow> nat \<Rightarrow> string"
  w_date :: string
  w_bytes :: "GutList \<Rightarrow> nat"
  w_suffix :: string

text \<open>
  The state of a serving instance: the module-level \<open>rateLimitStore\<close> and the key-value
  namespace \<open>env.MATRIX_STORE\<close>. A stored value is the document that \<open>JSON.parse\<close> gives
  back, with the \<open>expirationTtl\<close> (seconds) it was written with.
\<close>

record KVEntry =
  kv_value :: GutList
  kv_expirationTtl :: int

record Server =
  rateLimitStore :: RateLimitStore
  MATRIX_STORE :: "string \<rightharpoonup> KVEntry"

text \<open>
  The responses, by status: 200 with the list, 201 with the slug, 409 with the server's
  list, \<open>errorResponse(message, status)\<close>, and 429 with the message, the \<open>retryAfter\<close> of
  the body and the \<open>Retry-After\<close> header.
\<close>

datatype Response =
    Json200 GutList
  | Created201 string
  | Conflict409 GutList
  | ErrorResponse "ErrorMessage option" nat
  | RateLimit429 "RateLimitError option" "int option" int

definition rateLimitResponse :: "RateLimitError option \<Rightarrow> int option \<Rightarrow> Response" where
  "rateLimitResponse err ra =
     RateLimit429 err ra (case ra of None \<Rightarrow> 60 | Some r \<Rightarrow> if r = 0 then 60 else r)"

definition isUserItemUpdate :: "IncomingItem \<Rightarrow> bool" where
  "isUserItemUpdate item \<longleftrightarrow> in_g item \<noteq> None \<or> in_u item \<noteq> None \<or> in_t item \<noteq> None"

text \<open>
  The callback of the structural rebuild (\<open>[slug].ts\<close>, lines 133 to 148): the incoming
  item is looked up among the existing ones by id.
\<close>

definition reconcileItem ::
  "GutItem list \<Rightarrow> Scale \<Rightarrow> int \<Rightarrow> string \<Rightarrow> IncomingItem \<Rightarrow> GutItem" where
  "reconcileItem existingItems scl maxItems uuid incomingItem =
     (case find (\<lambda>e. Some (item_id e) = in_id incomingItem) existingItems of
        Some existingItem \<Rightarrow>
          (normalizeItem (asPartialItem existingItem) scl maxItems uuid)
            \<lparr>label := (case in_label incomingItem of None \<Rightarrow> label existingItem
                       | Some l \<Rightarrow> if l = [] then label existingItem else l),
             item_notes := (case in_notes incomingItem of None \<Rightarrow> item_notes existingItem
                            | Some n \<Rightarrow> Some n)\<rparr>
      | None \<Rightarrow> normalizeItem incomingItem scl maxItems uuid)"

text \<open>
  The callback of the score merge (lines 152 to 177): the item at \<open>index\<close> meets
  \<open>incoming.items[index]\<close>.
\<close>

definition mergeUserItem ::
  "string \<Rightarrow> Scale \<Rightarrow> IncomingItem list \<Rightarrow> nat \<times> GutItem \<Rightarrow> GutItem" where
  "mergeUserItem userId scl incs p =
     (case p of (index, item) \<Rightarrow>
        if index < length incs \<and> isUserItemUpdate (incs ! index) then
          let incomingItem = incs ! index;
              item1 = (case in_label incomingItem of None \<Rightarrow> item
                       | Some l \<Rightarrow> item\<lparr>label := l\<rparr>);
              item2 = (case in_notes incomingItem of None \<Rightarrow> item1
                       | Some n \<Rightarrow> item1\<lparr>item_notes := Some n\<rparr>)
          in (case (in_g incomingItem, in_u incomingItem, in_t incomingItem) of
                (Some g, Some u, Some t) \<Rightarrow>
                  mergeUserScore item2 userId
                    \<lparr>us_g = g, us_u = u, us_t = t, us_score = g * u * t\<rparr> scl
              | _ \<Rightarrow> item2)
        else item)"

text \<open>The items of the updated list (lines 123 to 186).\<close>

definition processItems ::
  "World \<Rightarrow> int \<Rightarrow> UpdateListRequest \<Rightarrow> GutList \<Rightarrow> Scale \<Rightarrow> GutItem list" where
  "processItems w maxItems incoming existing scl =
     (let items0 = map (\<lambda>(i, item). normalizeItem (asPartialItem item) scl maxItems (w_uuid w 0 i))
                     (enumerate 0 (items existing));
          userId = (case rq_userId incoming of None \<Rightarrow> None
                    | Some uid \<Rightarrow> if uid = [] then None else Some uid);
          items1 =
            (case (userId, rq_items incoming) of
               (Some uid, Some incs) \<Rightarrow>
                 let isStructuralChange = (length incs \<noteq> length (items existing));
                     rebuilt =
                       (if isStructuralChange
                        then map (\<lambda>(i, incomingItem).
                                    reconcileItem (items existing) scl maxItems (w_uuid w 1 i)
                                      incomingItem)
                               (enumerate 0 (slice0 maxItems incs))
                        else items0)
                 in map (mergeUserItem uid scl incs) (enumerate 0 rebuilt)
             | _ \<Rightarrow> items0)
      in case (rq_items incoming, userId) of
           (Some incs, None) \<Rightarrow>
             map (\<lambda>(i, item). normalizeItem item scl maxItems (w_uuid w 2 i))
               (enumerate 0 (slice0 maxItems incs))
         | _ \<Rightarrow> items1)"

text \<open>
  The checks of \<open>onRequestPut\<close> that come before the list is read (lines 71 to 99): the
  format of the user id, the rate limits of the user and of the list, the shape of the
  request. The result is the early response, if any, and the rate-limit store.
\<close>

definition admit ::
  "Env \<Rightarrow> World \<Rightarrow> string \<Rightarrow> UpdateListRequest \<Rightarrow> RateLimitStore
     \<Rightarrow> Response option \<times> RateLimitStore" where
  "admit env w slug incoming rl =
     (if (case rq_userId incoming of None \<Rightarrow> False | Some uid \<Rightarrow> \<not> validateUserId uid)
      then (Some (ErrorResponse (Some InvalidUserIdFormat) 400), rl)
      else
        case (case rq_userId incoming of
                None \<Rightarrow> (\<lparr>lim_allowed = True, lim_error = None, lim_retryAfter = None\<rparr>, rl)
              | Some uid \<Rightarrow>
                  if uid = []
                  then (\<lparr>lim_allowed = True, lim_error = None, lim_retryAfter = None\<rparr>, rl)
                  else checkUserRateLimits uid Save env (w_userTicks w) rl) of
          (userRateLimit, rl1) \<Rightarrow>
            if \<not> lim_allowed userRateLimit
            then (Some (rateLimitResponse (lim_error userRateLimit) (lim_retryAfter userRateLimit)),
                  rl1)
            else
              case checkListRateLimits slug env (w_listTick w) rl1 of
                (listRateLimit, rl2) \<Rightarrow>
                  if \<not> lim_allowed listRateLimit
                  then (Some (rateLimitResponse (lim_error listRateLimit)
                                (lim_retryAfter listRateLimit)), rl2)
                  else
                    let maxItems = envNumber (MAX_ITEMS env) 500;
                        validation = validateList incoming maxItems
                    in if \<not> valid validation
                       then (Some (ErrorResponse
                                     (Some (case verror validation of None \<Rightarrow> InvalidRequest
                                            | Some e \<Rightarrow> e)) 400), rl2)
                       else (None, rl2))"

text \<open>
  The list that \<open>onRequestPut\<close> builds from the request and the stored list once the
  versions agree (lines 118 to 197).
\<close>

definition updatedList :: "Env \<Rightarrow> World \<Rightarrow> UpdateListRequest \<Rightarrow> GutList \<Rightarrow> GutList" where
  "updatedList env w incoming existing =
     (let maxItems = envNumber (MAX_ITEMS env) 500;
          envMin = envNumber (MIN_SCALE env) 1;
          envMax = envNumber (MAX_SCALE env) 5;
          scl = (case rq_scale incoming of
                   None \<Rightarrow> scale existing
                 | Some sc \<Rightarrow> normalizeScale (Some sc) envMin envMax);
          its = processItems w maxItems incoming existing scl
      in \<lparr>title = (case rq_title incoming of
                     None \<Rightarrow> title existing
                   | Some t \<Rightarrow> sanitizeTitle (Some t)),
          items = its,
          scale = scl,
          updatedAt = w_date w,
          version = version existing + 1\<rparr>)"

definition onRequestPut ::
  "Env \<Rightarrow> World \<Rightarrow> string \<Rightarrow> UpdateListRequest \<Rightarrow> Server \<Rightarrow> Response \<times> Server" where
  "onRequestPut env w slug incoming srv =
     (let key = getListKey slug
      in case admit env w slug incoming (rateLimitStore srv) of
           (Some resp, rl) \<Rightarrow> (resp, srv\<lparr>rateLimitStore := rl\<rparr>)
         | (None, rl) \<Rightarrow>
             let srv1 = srv\<lparr>rateLimitStore := rl\<rparr>
             in (case MATRIX_STORE srv key of
                  None \<Rightarrow> (ErrorResponse (Some ListNotFound) 404, srv1)
                | Some existingRaw \<Rightarrow>
                    let existing = kv_value existingRaw
                    in if (case rq_version incoming of None \<Rightarrow> False
                           | Some v \<Rightarrow> v \<noteq> version existing)
                       then (Conflict409 existing, srv1)
                       else
                         let updated = updatedList env w incoming existing;
                             sizeCheck = checkListSize (w_bytes w updated) env
                         in if \<not> size_allowed sizeCheck
                            then (ErrorResponse (size_error sizeCheck) 413, srv1)
                            else
                              let ttlDays = envNumber (LIST_TTL_DAYS env) 30
                              in (Json200 updated,
                                  srv1\<lparr>MATRIX_STORE := (MATRIX_STORE srv)
                                     (key \<mapsto> \<lparr>kv_value = updated,
                                               kv_expirationTtl = ttlDays * 24 * 60 * 60\<rparr>)\<rparr>)))"

text \<open>
  \<open>onRequestPost\<close> of \<open>api/list/index.ts\<close>; \<open>xUserId\<close> is the header \<open>X-User-Id\<close>.
\<close>

definition onRequestPost ::
  "Env \<Rightarrow> World \<Rightarrow> string option \<Rightarrow> CreateListRequest \<Rightarrow> Server \<Rightarrow> Response \<times> Server" where
  "onRequestPost env w xUserId body srv =
     (let userId = (case xUserId of None \<Rightarrow> ''anonymous''
                    | Some h \<Rightarrow> if h = [] then ''anonymous'' else h)
      in case checkUserRateLimits userId Create env (w_userTicks w) (rateLimitStore srv) of
           (rateLimitCheck, rl) \<Rightarrow>
             let srv1 = srv\<lparr>rateLimitStore := rl\<rparr>
             in if \<not> lim_allowed rateLimitCheck
                then (rateLimitResponse (lim_error rateLimitCheck) (lim_retryAfter rateLimitCheck),
                      srv1)
                else
                  let envMin = envNumber (MIN_SCALE env) 1;
                      envMax = envNumber (MAX_SCALE env) 5;
                      scl = normalizeScale (cr_scale body) envMin envMax;
                      ttl = sanitizeTitle (cr_title body);
                      slug = generateSlug ttl (w_suffix w);
                      lst = \<lparr>title = ttl, items = [], scale = scl, updatedAt = w_date w,
                             version = 1\<rparr>;
                      sizeCheck = checkListSize (w_bytes w lst) env
                  in if \<not> size_allowed sizeCheck
                     then (ErrorResponse (size_error sizeCheck) 413, srv1)
                     else
                       let key = getListKey slug;
                           ttlDays = envNumber (LIST_TTL_DAYS env) 30
                       in (Created201 slug,
                           srv1\<lparr>MATRIX_STORE := (MATRIX_STORE srv)
                              (key \<mapsto> \<lparr>kv_value = lst,
                                        kv_expirationTtl = ttlDays * 24 * 60 * 60\<rparr>)\<rparr>))"

subsection \<open>The words of the specification\<close>

text \<open>
  The arithmetic mean of a list of integers, and the two ways of rounding a number to one
  decimal place that the specification speaks of: a tie at the tenths digit going away
  from zero, or going up.
\<close>

definition mean :: "int list \<Rightarrow> rat" where
  "mean xs = of_int (sum_list xs) / of_nat (length xs)"

definition roundHalfAwayTenths :: "rat \<Rightarrow> rat" where
  "roundHalfAwayTenths x =
     (if 0 \<le> x then of_int \<lfloor>x * 10 + 1 / 2\<rfloor> / 10
      else - (of_int \<lfloor>(- x) * 10 + 1 / 2\<rfloor> / 10))"

definition roundHalfUpTenths :: "rat \<Rightarrow> rat" where
  "roundHalfUpTenths x = of_int \<lfloor>x * 10 + 1 / 2\<rfloor> / 10"

text \<open>
  A call of \<open>checkRateLimit\<close> falls inside the window that ends at \<open>r\<close> when neither the
  call nor its sweep sees the entry as expired.
\<close>

definition inWindow :: "Tick \<Rightarrow> int \<Rightarrow> bool" where
  "inWindow tick r \<longleftrightarrow>
     tk_now tick \<le> r \<and> (case tk_sweep tick of None \<Rightarrow> True | Some t \<Rightarrow> t \<le> r)"

subsection \<open>Concrete data\<close>

definition scale15 :: Scale where
  "scale15 = \<lparr>smin = 1, smax = 5\<rparr>"

definition envOff :: Env where
  "envOff = \<lparr>MAX_ITEMS = None, MIN_SCALE = None, MAX_SCALE = None,
     ENABLE_RATE_LIMITING = ''false'',
     MAX_SAVES_PER_USER_PER_MINUTE = None, MAX_SAVES_PER_USER_PER_HOUR = None,
     MAX_LISTS_PER_USER_PER_DAY = None, MAX_SAVES_PER_LIST_PER_MINUTE = None,
     LIST_MAX_SIZE_KB = None, LIST_TTL_DAYS = None\<rparr>"

definition envOn :: Env where
  "envOn = envOff\<lparr>ENABLE_RATE_LIMITING := ''true''\<rparr>"

definition tickAt :: "int \<Rightarrow> Tick" where
  "tickAt n = \<lparr>tk_sweep = None, tk_now = n\<rparr>"

definition world0 :: World where
  "world0 = \<lparr>w_userTicks = (\<lambda>_. tickAt 1000), w_listTick = tickAt 1000,
     w_uuid = (\<lambda>_ _. ''generated-id''), w_date = ''2024-01-01T00:00:00.000Z'',
     w_bytes = (\<lambda>_. 0), w_suffix = ''deadbeef''\<rparr>"

definition userA :: string where
  "userA = ''aaaaaaaa-aaaa-aaaa-aaaa-aaaaaaaaaaaa''"

definition userB :: string where
  "userB = ''bbbbbbbb-bbbb-bbbb-bbbb-bbbbbbbbbbbb''"

definition scoreA :: UserScore where
  "scoreA = \<lparr>us_g = 5, us_u = 5, us_t = 4, us_score = 100\<rparr>"

definition itemA :: GutItem where
  "itemA = \<lparr>item_id = ''a'', label = ''Item A'', scores = [(userA, scoreA)],
     avgScore = None, item_notes = None\<rparr>"

definition itemB :: GutItem where
  "itemB = \<lparr>item_id = ''b'', label = ''Item B'', scores = [],
     avgScore = None, item_notes = None\<rparr>"

definition list0 :: GutList where
  "list0 = \<lparr>title = ''T'', items = [itemA, itemB], scale = scale15,
     updatedAt = ''2023-12-31T00:00:00.000Z'', version = 1\<rparr>"

definition server0 :: Server where
  "server0 = \<lparr>rateLimitStore = Map.empty,
     MATRIX_STORE = [getListKey ''s'' \<mapsto> \<lparr>kv_value = list0, kv_expirationTtl = 2592000\<rparr>]\<rparr>"

definition noItem :: IncomingItem where
  "noItem = \<lparr>in_id = None, in_label = None, in_scores = None, in_avgScore = None,
     in_notes = None, in_g = None, in_u = None, in_t = None\<rparr>"

definition noReq :: UpdateListRequest where
  "noReq = \<lparr>rq_title = None, rq_items = None, rq_scale = None, rq_version = None,
     rq_userId = None\<rparr>"

definition negScores :: ScoreMap where
  "negScores =
     [(''u1'', \<lparr>us_g = - 1, us_u = 1, us_t = 1, us_score = - 1\<rparr>),
      (''u2'', \<lparr>us_g = 0, us_u = 1, us_t = 1, us_score = 0\<rparr>),
      (''u3'', \<lparr>us_g = 0, us_u = 1, us_t = 1, us_score = 0\<rparr>),
      (''u4'', \<lparr>us_g = 0, us_u = 1, us_t = 1, us_score = 0\<rparr>)]"

definition twoScores :: ScoreMap where
  "twoScores =
     [(userA, \<lparr>us_g = 5, us_u = 4, us_t = 3, us_score = 60\<rparr>),
      (userB, \<lparr>us_g = 3, us_u = 5, us_t = 4, us_score = 60\<rparr>)]"

text \<open>Consecutive calls of \<open>checkRateLimit\<close> on one key, one draw for each call.\<close>

fun checkMany ::
  "string \<Rightarrow> int \<Rightarrow> int \<Rightarrow> Tick list \<Rightarrow> RateLimitStore
     \<Rightarrow> RateLimitResult list \<times> RateLimitStore" where
  "checkMany key limit windowMs [] st = ([], st)"
| "checkMany key limit windowMs (t # ts) st =
     (case checkRateLimit key limit windowMs t st of
        (r, st') \<Rightarrow>
          (case checkMany key limit windowMs ts st' of (rs, st'') \<Rightarrow> (r # rs, st'')))"

text \<open>Requests against the list stored under the slug \<open>s\<close>.\<close>

definition staleReq :: UpdateListRequest where
  "staleReq = noReq\<lparr>rq_version := Some 0\<rparr>"

definition staleBadScale :: UpdateListRequest where
  "staleBadScale =
     noReq\<lparr>rq_scale := Some \<lparr>ps_min = Some 5, ps_max = Some 1\<rparr>, rq_version := Some 0\<rparr>"

definition titleReq :: UpdateListRequest where
  "titleReq = noReq\<lparr>rq_title := Some ''  New title ''\<rparr>"

text \<open>The list that \<open>onRequestPost\<close> builds (\<open>index.ts\<close>, lines 46 to 52).\<close>

definition createdList :: "Env \<Rightarrow> World \<Rightarrow> CreateListRequest \<Rightarrow> GutList" where
  "createdList env w body =
     \<lparr>title = sanitizeTitle (cr_title body), items = [],
      scale = normalizeScale (cr_scale body) (envNumber (MIN_SCALE env) 1)
                (envNumber (MAX_SCALE env) 5),
      updatedAt = w_date w, version = 1\<rparr>"

definition emptyBody :: CreateListRequest where
  "emptyBody = \<lparr>cr_title = None, cr_scale = None\<rparr>"

text \<open>
  The items of an update that carries a user identifier, before the scores are merged
  (lines 124 to 149), for an incoming list within the item limit: rebuilt from the
  incoming items on a structural change, the normalised stored items otherwise.
\<close>

definition baseItems ::
  "World \<Rightarrow> int \<Rightarrow> GutList \<Rightarrow> Scale \<Rightarrow> IncomingItem list \<Rightarrow> GutItem list" where
  "baseItems w maxItems existing scl incs =
     (if length incs \<noteq> length (items existing)
      then map (\<lambda>(i, incomingItem).
                  reconcileItem (items existing) scl maxItems (w_uuid w 1 i) incomingItem)
             (enumerate 0 incs)
      else map (\<lambda>(i, item). normalizeItem (asPartialItem item) scl maxItems (w_uuid w 0 i))
             (enumerate 0 (items existing)))"

text \<open>
  Updates of the list stored under \<open>s\<close>, whose items are \<open>a\<close> (scored by user A) and \<open>b\<close>:
  user B scores item \<open>a\<close>; user B sends the two items in the other order, with a score
  for \<open>b\<close>; user B sends a third item that carries a scores map; a request without user
  identifier replaces the items and supplies a scores map.
\<close>

definition scoreReq :: UpdateListRequest where
  "scoreReq = noReq\<lparr>rq_items := Some
       [noItem\<lparr>in_id := Some ''a'', in_g := Some 4, in_u := Some 4, in_t := Some 4\<rparr>,
        noItem\<lparr>in_id := Some ''b''\<rparr>],
     rq_version := Some 1, rq_userId := Some userB\<rparr>"

definition swapReq :: UpdateListRequest where
  "swapReq = noReq\<lparr>rq_items := Some
       [noItem\<lparr>in_id := Some ''b'', in_g := Some 3, in_u := Some 3, in_t := Some 3\<rparr>,
        noItem\<lparr>in_id := Some ''a''\<rparr>],
     rq_version := Some 1, rq_userId := Some userB\<rparr>"

definition addReq :: UpdateListRequest where
  "addReq = noReq\<lparr>rq_items := Some
       [noItem\<lparr>in_id := Some ''a''\<rparr>,
        noItem\<lparr>in_id := Some ''b''\<rparr>,
        noItem\<lparr>in_id := Some ''n'', in_label := Some ''New'',
               in_scores := Some [(userA, \<lparr>us_g = 9, us_u = 9, us_t = 9, us_score = 1\<rparr>)]\<rparr>],
     rq_version := Some 1, rq_userId := Some userB\<rparr>"

definition replaceReq :: UpdateListRequest where
  "replaceReq = noReq\<lparr>rq_items := Some
       [noItem\<lparr>in_id := Some ''a'', in_label := Some ''Item A'',
               in_scores := Some [(userA, \<lparr>us_g = 1, us_u = 1, us_t = 1, us_score = 999\<rparr>)]\<rparr>],
     rq_version := Some 1\<rparr>"

text \<open>User B scores item \<open>a\<close> with \<open>(4,4,4)\<close> and narrows the scale to \<open>{1,3}\<close>.\<close>

definition scaleReq :: UpdateListRequest where
  "scaleReq = scoreReq\<lparr>rq_scale := Some \<lparr>ps_min = Some 1, ps_max = Some 3\<rparr>\<rparr>"



text \<open>
  A world whose clock stands at \<open>n\<close> for every call of \<open>checkRateLimit\<close>; a save of the
  title by user B (no version, so that it is applied against whatever is stored); and the
  server after user B has saved twice at \<open>1000\<close>.
\<close>

definition worldAt :: "int \<Rightarrow> World" where
  "worldAt n = world0\<lparr>w_userTicks := (\<lambda>_. tickAt n), w_listTick := tickAt n\<rparr>"

definition saveReq :: UpdateListRequest where
  "saveReq = titleReq\<lparr>rq_userId := Some userB\<rparr>"

definition twiceSaved :: Server where
  "twiceSaved = snd (onRequestPut envOn (worldAt 1000) ''s'' saveReq
                  (snd (onRequestPut envOn (worldAt 1000) ''s'' saveReq server0)))"





section \<open>Properties\<close>

subsection \<open>The scoring model\<close>

lemma clamp_lo [simp]: "clamp lo lo hi = lo"
  by (simp add: clamp_def)

lemma clamp_range: "lo \<le> hi \<Longrightarrow> lo \<le> clamp v lo hi \<and> clamp v lo hi \<le> hi"
  by (simp add: clamp_def)

text \<open>
  C7. \<open>normalizeUserScore\<close> has no failing branch: it returns a score for every partial
  score and every scale. A missing factor becomes \<open>scale.min\<close>; a factor that is given
  is clamped (zero, being falsy, is first replaced by \<open>scale.min\<close>, which on a scale with
  \<open>0 \<le> min \<le> max\<close> is what clamping zero gives); on a scale with
  \<open>min \<le> max\<close> every factor of the result lies in \<open>[scale.min, scale.max]\<close>; the score of
  the result is the product of its three factors; the \<open>score\<close> field of the input has no
  influence. On the scale \<open>{1,5}\<close>, \<open>{g:10, u:0, t:3, score:999}\<close> becomes
  \<open>{g:5, u:1, t:3, score:15}\<close>.
\<close>

theorem normalizeUserScore_total:
  fixes sc :: PartialUserScore and scl :: Scale
  defines "r \<equiv> normalizeUserScore sc scl"
  shows "us_score r = us_g r * us_u r * us_t r
    \<and> (pu_g sc = None \<longrightarrow> us_g r = smin scl)
    \<and> (pu_u sc = None \<longrightarrow> us_u r = smin scl)
    \<and> (pu_t sc = None \<longrightarrow> us_t r = smin scl)
    \<and> (\<forall>v. pu_g sc = Some v \<longrightarrow>
          us_g r = (if v = 0 then smin scl else clamp v (smin scl) (smax scl)))
    \<and> (\<forall>v. pu_u sc = Some v \<longrightarrow>
          us_u r = (if v = 0 then smin scl else clamp v (smin scl) (smax scl)))
    \<and> (\<forall>v. pu_t sc = Some v \<longrightarrow>
          us_t r = (if v = 0 then smin scl else clamp v (smin scl) (smax scl)))
    \<and> (0 \<le> smin scl \<and> smin scl \<le> smax scl \<longrightarrow>
          (\<forall>v. pu_g sc = Some v \<longrightarrow> us_g r = clamp v (smin scl) (smax scl))
        \<and> (\<forall>v. pu_u sc = Some v \<longrightarrow> us_u r = clamp v (smin scl) (smax scl))
        \<and> (\<forall>v. pu_t sc = Some v \<longrightarrow> us_t r = clamp v (smin scl) (smax scl)))
    \<and> (smin scl \<le> smax scl \<longrightarrow>
          smin scl \<le> us_g r \<and> us_g r \<le> smax scl \<and>
          smin scl \<le> us_u r \<and> us_u r \<le> smax scl \<and>
          smin scl \<le> us_t r \<and> us_t r \<le> smax scl)
    \<and> normalizeUserScore (sc\<lparr>pu_score := x\<rparr>) scl = r
    \<and> normalizeUserScore
          \<lparr>pu_g = Some 10, pu_u = Some 0, pu_t = Some 3, pu_score = Some 999\<rparr> scale15
        = \<lparr>us_g = 5, us_u = 1, us_t = 3, us_score = 15\<rparr>"
  unfolding r_def
  by (simp add: normalizeUserScore_def Let_def calculateScore_def numberOr_def clamp_def
      scale15_def)

theorem normalizeUserScore_total_witness:
  "0 \<le> smin scale15 \<and> smin scale15 \<le> smax scale15
   \<and> normalizeUserScore \<lparr>pu_g = Some 10, pu_u = None, pu_t = Some 3, pu_score = Some 999\<rparr> scale15
       = \<lparr>us_g = 5, us_u = 1, us_t = 3, us_score = 15\<rparr>
   \<and> normalizeUserScore \<lparr>pu_g = None, pu_u = Some 7, pu_t = None, pu_score = None\<rparr> scale15
       = \<lparr>us_g = 1, us_u = 5, us_t = 1, us_score = 5\<rparr>"
  using
    normalizeUserScore_total
      [of "\<lparr>pu_g = Some 10, pu_u = None, pu_t = Some 3, pu_score = Some 999\<rparr>" scale15 None]
    normalizeUserScore_total
      [of "\<lparr>pu_g = None, pu_u = Some 7, pu_t = None, pu_score = None\<rparr>" scale15 None]
  by (simp add: scale15_def clamp_def normalizeUserScore_def numberOr_def calculateScore_def)

lemma round1_div:
  assumes "0 < n"
  shows "round1 sm n = of_int ((20 * sm + int n) div (2 * int n)) / 10"
proof -
  have "(of_int sm / of_nat n) * 10 + 1 / 2
      = (of_int (20 * sm + int n) :: rat) / of_int (2 * int n)"
    using assms by (simp add: field_simps)
  then show ?thesis
    unfolding round1_def mathRound_def by (simp only: floor_divide_of_int_eq)
qed

lemma foldl_sumStep:
  "foldl sumStep acc xs =
     \<lparr>us_g = us_g acc + sum_list (map us_g xs), us_u = us_u acc + sum_list (map us_u xs),
      us_t = us_t acc + sum_list (map us_t xs),
      us_score = us_score acc + sum_list (map us_score xs)\<rparr>"
  by (induction xs arbitrary: acc) (simp_all add: sumStep_def)

lemma round1_mean: "round1 (sum_list xs) (length xs) = roundHalfUpTenths (mean xs)"
  by (simp add: round1_def mathRound_def roundHalfUpTenths_def mean_def)

lemma halfUp_halfAway: "0 \<le> x \<Longrightarrow> roundHalfUpTenths x = roundHalfAwayTenths x"
  by (simp add: roundHalfUpTenths_def roundHalfAwayTenths_def)

lemma card_dom_map_of: "distinct (map fst xs) \<Longrightarrow> card (dom (map_of xs)) = length xs"
  using distinct_card [of "map fst xs"] by (simp add: dom_map_of_conv_image_fst)

lemma calculateAverageScore_empty: "calculateAverageScore scs = None \<longleftrightarrow> scs = []"
  by (simp add: calculateAverageScore_def Let_def)

lemma calculateAverageScore_nonempty:
  assumes "scs \<noteq> []"
  shows "calculateAverageScore scs =
      Some \<lparr>av_g = roundHalfUpTenths (mean (map (us_g \<circ> snd) scs)),
            av_u = roundHalfUpTenths (mean (map (us_u \<circ> snd) scs)),
            av_t = roundHalfUpTenths (mean (map (us_t \<circ> snd) scs)),
            av_score = roundHalfUpTenths (mean (map (us_score \<circ> snd) scs)),
            av_count = length scs\<rparr>"
proof -
  have r: "round1 (sum_list (map (f \<circ> snd) scs)) (length scs)
             = roundHalfUpTenths (mean (map (f \<circ> snd) scs))" for f
    using round1_mean [of "map (f \<circ> snd) scs"] by simp
  show ?thesis
    using assms by (simp add: calculateAverageScore_def Let_def foldl_sumStep r)
qed

text \<open>
  C8, as the code has it. \<open>calculateAverageScore\<close> returns nothing exactly for the empty
  map. For a non-empty map the count is the number of its entries, and each of \<open>g\<close>, \<open>u\<close>, \<open>t\<close>
  and \<open>score\<close> is the arithmetic mean of that field rounded to one decimal place with a
  tie going up, as \<open>Math.round\<close> does; where the mean is not negative this is rounding
  half away from zero.
\<close>

theorem calculateAverageScore_rounds_half_up:
  "(calculateAverageScore scs = None \<longleftrightarrow> scs = [])
   \<and> (\<forall>a. calculateAverageScore scs = Some a \<longrightarrow>
         av_count a = length scs
       \<and> (distinct (map fst scs) \<longrightarrow> av_count a = card (dom (map_of scs)))
       \<and> av_g a = roundHalfUpTenths (mean (map (us_g \<circ> snd) scs))
       \<and> av_u a = roundHalfUpTenths (mean (map (us_u \<circ> snd) scs))
       \<and> av_t a = roundHalfUpTenths (mean (map (us_t \<circ> snd) scs))
       \<and> av_score a = roundHalfUpTenths (mean (map (us_score \<circ> snd) scs))
       \<and> (0 \<le> mean (map (us_g \<circ> snd) scs) \<longrightarrow>
            av_g a = roundHalfAwayTenths (mean (map (us_g \<circ> snd) scs)))
       \<and> (0 \<le> mean (map (us_u \<circ> snd) scs) \<longrightarrow>
            av_u a = roundHalfAwayTenths (mean (map (us_u \<circ> snd) scs)))
       \<and> (0 \<le> mean (map (us_t \<circ> snd) scs) \<longrightarrow>
            av_t a = roundHalfAwayTenths (mean (map (us_t \<circ> snd) scs)))
       \<and> (0 \<le> mean (map (us_score \<circ> snd) scs) \<longrightarrow>
            av_score a = roundHalfAwayTenths (mean (map (us_score \<circ> snd) scs))))"
proof (cases "scs = []")
  case True
  then show ?thesis by (simp add: calculateAverageScore_def)
next
  case False
  show ?thesis
    using False
    by (simp add: calculateAverageScore_empty calculateAverageScore_nonempty [OF False]
        halfUp_halfAway card_dom_map_of)
qed

theorem calculateAverageScore_rounds_half_up_witness:
  "calculateAverageScore twoScores
     = Some \<lparr>av_g = 4, av_u = 9 / 2, av_t = 7 / 2, av_score = 60, av_count = 2\<rparr>
   \<and> distinct (map fst twoScores) \<and> card (dom (map_of twoScores)) = 2
   \<and> 0 \<le> mean (map (us_g \<circ> snd) twoScores)
   \<and> 0 \<le> mean (map (us_u \<circ> snd) twoScores)
   \<and> 0 \<le> mean (map (us_t \<circ> snd) twoScores)
   \<and> 0 \<le> mean (map (us_score \<circ> snd) twoScores)
   \<and> roundHalfAwayTenths (mean (map (us_g \<circ> snd) twoScores)) = 4
   \<and> roundHalfAwayTenths (mean (map (us_u \<circ> snd) twoScores)) = 9 / 2
   \<and> roundHalfAwayTenths (mean (map (us_t \<circ> snd) twoScores)) = 7 / 2
   \<and> roundHalfAwayTenths (mean (map (us_score \<circ> snd) twoScores)) = 60"
proof -
  have e: "calculateAverageScore twoScores
     = Some \<lparr>av_g = 4, av_u = 9 / 2, av_t = 7 / 2, av_score = 60, av_count = 2\<rparr>"
    by (simp add: calculateAverageScore_def twoScores_def sumStep_def round1_div)
  have m: "mean (map (us_g \<circ> snd) twoScores) = 4" "mean (map (us_u \<circ> snd) twoScores) = 9 / 2"
    "mean (map (us_t \<circ> snd) twoScores) = 7 / 2" "mean (map (us_score \<circ> snd) twoScores) = 60"
    by (simp_all add: mean_def twoScores_def)
  have d: "distinct (map fst twoScores)"
    by (simp add: twoScores_def userA_def userB_def)
  show ?thesis
    using calculateAverageScore_rounds_half_up [of twoScores] e d
    by (simp add: m)
qed

text \<open>
  C8 as stated fails where a mean is negative and lies half-way between two tenths: the
  four \<open>g\<close> values \<open>-1, 0, 0, 0\<close> have the mean \<open>-0.25\<close>, which the code rounds to \<open>-0.2\<close>
  and rounding half away from zero takes to \<open>-0.3\<close>.
\<close>

theorem calculateAverageScore_half_away_counterexample:
  "calculateAverageScore negScores
     = Some \<lparr>av_g = - 1 / 5, av_u = 1, av_t = 1, av_score = - 1 / 5, av_count = 4\<rparr>
   \<and> mean (map (us_g \<circ> snd) negScores) = - 1 / 4
   \<and> roundHalfAwayTenths (mean (map (us_g \<circ> snd) negScores)) = - 3 / 10"
proof -
  have m: "mean (map (us_g \<circ> snd) negScores) = - 1 / 4"
    by (simp add: mean_def negScores_def)
  have f: "\<lfloor>(3::rat)\<rfloor> = 3"
    by simp
  have "roundHalfAwayTenths (- 1 / 4) = - 3 / 10"
    by (simp add: roundHalfAwayTenths_def f)
  moreover have "calculateAverageScore negScores
     = Some \<lparr>av_g = - 1 / 5, av_u = 1, av_t = 1, av_score = - 1 / 5, av_count = 4\<rparr>"
    by (simp add: calculateAverageScore_def negScores_def sumStep_def round1_div)
  ultimately show ?thesis
    using m by simp
qed

subsection \<open>The rate governor\<close>

lemma cleanupExpired_cases:
  "cleanupExpired t st k = None \<or> cleanupExpired t st k = st k"
  by (simp add: cleanupExpired_def split: option.splits)

lemma cleanupExpired_keep:
  "st k = Some e \<Longrightarrow> t \<le> resetAt e \<Longrightarrow> cleanupExpired t st k = Some e"
  by (simp add: cleanupExpired_def)

lemma checkRateLimit_fresh:
  assumes "st key = None \<or> (\<exists>e. st key = Some e \<and> tk_now tick > resetAt e)"
  shows "checkRateLimit key limit windowMs tick st =
     (\<lparr>allowed = True, retryAfter = None, current = 1\<rparr>,
      (case tk_sweep tick of None \<Rightarrow> st | Some t \<Rightarrow> cleanupExpired t st)
        (key \<mapsto> \<lparr>count = 1, resetAt = tk_now tick + windowMs\<rparr>))"
proof (cases "tk_sweep tick")
  case None
  then show ?thesis using assms
    by (auto simp: checkRateLimit_def Let_def split: option.splits)
next
  case (Some t)
  have "cleanupExpired t st key = None \<or> cleanupExpired t st key = st key"
    by (rule cleanupExpired_cases)
  then show ?thesis using assms Some
    by (auto simp: checkRateLimit_def Let_def split: option.splits)
qed

lemma swept_in_window:
  assumes "st key = Some e" "inWindow tick (resetAt e)"
  shows "(case tk_sweep tick of None \<Rightarrow> st | Some t \<Rightarrow> cleanupExpired t st) key = Some e"
  using assms by (auto simp: inWindow_def cleanupExpired_keep split: option.splits)

lemma checkRateLimit_increment:
  assumes "st key = Some e" "inWindow tick (resetAt e)" "count e < limit"
  shows "checkRateLimit key limit windowMs tick st =
     (\<lparr>allowed = True, retryAfter = None, current = count e + 1\<rparr>,
      (case tk_sweep tick of None \<Rightarrow> st | Some t \<Rightarrow> cleanupExpired t st)
        (key \<mapsto> e\<lparr>count := count e + 1\<rparr>))"
proof -
  have "\<not> tk_now tick > resetAt e" using assms(2) by (simp add: inWindow_def)
  then show ?thesis
    using swept_in_window [of st key e tick, OF assms(1,2)] assms(3)
    by (simp add: checkRateLimit_def Let_def)
qed

lemma checkRateLimit_reject:
  assumes "st key = Some e" "inWindow tick (resetAt e)" "limit \<le> count e"
  shows "checkRateLimit key limit windowMs tick st =
     (\<lparr>allowed = False,
       retryAfter = Some \<lceil>(of_int (resetAt e - tk_now tick) :: rat) / 1000\<rceil>,
       current = count e\<rparr>,
      (case tk_sweep tick of None \<Rightarrow> st | Some t \<Rightarrow> cleanupExpired t st))"
proof -
  have "\<not> tk_now tick > resetAt e" using assms(2) by (simp add: inWindow_def)
  then show ?thesis
    using swept_in_window [of st key e tick, OF assms(1,2)] assms(3)
    by (simp add: checkRateLimit_def Let_def)
qed

lemma retry_nonneg: "n \<le> r \<Longrightarrow> 0 \<le> \<lceil>(of_int (r - n) :: rat) / 1000\<rceil>"
  by (simp add: ceiling_le_iff[symmetric] zero_le_ceiling)

lemma three_calls:
  assumes "st key = None \<or> (\<exists>e. st key = Some e \<and> tk_now t1 > resetAt e)"
    and "inWindow t2 (tk_now t1 + windowMs)" and "inWindow t3 (tk_now t1 + windowMs)"
  shows "fst (checkMany key 2 windowMs [t1, t2, t3] st) =
     [\<lparr>allowed = True, retryAfter = None, current = 1\<rparr>,
      \<lparr>allowed = True, retryAfter = None, current = 2\<rparr>,
      \<lparr>allowed = False,
        retryAfter = Some \<lceil>(of_int (tk_now t1 + windowMs - tk_now t3) :: rat) / 1000\<rceil>,
        current = 2\<rparr>]"
proof -
  define e1 where "e1 = \<lparr>count = 1, resetAt = tk_now t1 + windowMs\<rparr>"
  define e2 where "e2 = \<lparr>count = 2, resetAt = tk_now t1 + windowMs\<rparr>"
  obtain s1 where c1: "checkRateLimit key 2 windowMs t1 st =
      (\<lparr>allowed = True, retryAfter = None, current = 1\<rparr>, s1)" and s1: "s1 key = Some e1"
    using checkRateLimit_fresh [of st key t1 2 windowMs, OF assms(1)] by (simp add: e1_def)
  have w2: "inWindow t2 (resetAt e1)" using assms(2) by (simp add: e1_def)
  obtain s2 where c2: "checkRateLimit key 2 windowMs t2 s1 =
      (\<lparr>allowed = True, retryAfter = None, current = 2\<rparr>, s2)" and s2: "s2 key = Some e2"
    using checkRateLimit_increment [of s1 key e1 t2 2 windowMs, OF s1 w2]
    by (simp add: e1_def e2_def)
  have w3: "inWindow t3 (resetAt e2)" using assms(3) by (simp add: e2_def)
  obtain s3 where c3: "checkRateLimit key 2 windowMs t3 s2 =
      (\<lparr>allowed = False,
        retryAfter = Some \<lceil>(of_int (tk_now t1 + windowMs - tk_now t3) :: rat) / 1000\<rceil>,
        current = 2\<rparr>, s3)"
    using checkRateLimit_reject [of s2 key e2 t3 2 windowMs, OF s2 w3]
    by (simp add: e2_def)
  show ?thesis
    using c1 c2 c3 by simp
qed

text \<open>
  The branches of \<open>checkRateLimit\<close>. A call on a key with no entry, or with an entry whose
  \<open>resetAt\<close> the clock has passed, stores \<open>{count: 1, resetAt: now + windowMs}\<close> and allows
  with \<open>current = 1\<close>. A call that finds an entry it does not see as expired allows and
  increments while the stored count is below the limit; once the count has reached the
  limit it rejects and leaves the entry as it is, \<open>current\<close> is the stored count and
  \<open>retryAfter\<close> is the ceiling of the milliseconds to the reset divided by 1000, which is
  positive exactly when the clock is before \<open>resetAt\<close>. With the limit 2, three
  consecutive calls on a fresh key, the later two not after the reset of the first, are
  allowed, allowed and rejected, the third with \<open>current = 2\<close>.
\<close>

lemma checkRateLimit_window:
  fixes key :: string and limit windowMs :: int and tick :: Tick and st :: RateLimitStore
  defines "res \<equiv> checkRateLimit key limit windowMs tick st"
  shows
   "((st key = None \<or> (\<exists>e. st key = Some e \<and> tk_now tick > resetAt e)) \<longrightarrow>
        fst res = \<lparr>allowed = True, retryAfter = None, current = 1\<rparr>
      \<and> snd res key = Some \<lparr>count = 1, resetAt = tk_now tick + windowMs\<rparr>)
    \<and> (\<forall>e. st key = Some e \<and> inWindow tick (resetAt e) \<and> count e < limit \<longrightarrow>
        fst res = \<lparr>allowed = True, retryAfter = None, current = count e + 1\<rparr>
      \<and> snd res key = Some (e\<lparr>count := count e + 1\<rparr>))
    \<and> (\<forall>e. st key = Some e \<and> inWindow tick (resetAt e) \<and> limit \<le> count e \<longrightarrow>
        fst res = \<lparr>allowed = False,
                   retryAfter = Some \<lceil>(of_int (resetAt e - tk_now tick) :: rat) / 1000\<rceil>,
                   current = count e\<rparr>
      \<and> snd res key = Some e
      \<and> 0 \<le> \<lceil>(of_int (resetAt e - tk_now tick) :: rat) / 1000\<rceil>
      \<and> (tk_now tick < resetAt e \<longleftrightarrow> 0 < \<lceil>(of_int (resetAt e - tk_now tick) :: rat) / 1000\<rceil>))
    \<and> (\<forall>t2 t3. (st key = None \<or> (\<exists>e. st key = Some e \<and> tk_now tick > resetAt e))
          \<and> inWindow t2 (tk_now tick + windowMs) \<and> inWindow t3 (tk_now tick + windowMs) \<longrightarrow>
        fst (checkMany key 2 windowMs [tick, t2, t3] st) =
          [\<lparr>allowed = True, retryAfter = None, current = 1\<rparr>,
           \<lparr>allowed = True, retryAfter = None, current = 2\<rparr>,
           \<lparr>allowed = False,
             retryAfter = Some \<lceil>(of_int (tk_now tick + windowMs - tk_now t3) :: rat) / 1000\<rceil>,
             current = 2\<rparr>])"
proof (intro conjI impI allI)
  assume a: "st key = None \<or> (\<exists>e. st key = Some e \<and> tk_now tick > resetAt e)"
  show "fst res = \<lparr>allowed = True, retryAfter = None, current = 1\<rparr>"
    unfolding res_def using checkRateLimit_fresh [of st key tick limit windowMs, OF a] by simp
  show "snd res key = Some \<lparr>count = 1, resetAt = tk_now tick + windowMs\<rparr>"
    unfolding res_def using checkRateLimit_fresh [of st key tick limit windowMs, OF a] by simp
next
  fix e assume a: "st key = Some e \<and> inWindow tick (resetAt e) \<and> count e < limit"
  then have c: "checkRateLimit key limit windowMs tick st =
     (\<lparr>allowed = True, retryAfter = None, current = count e + 1\<rparr>,
      (case tk_sweep tick of None \<Rightarrow> st | Some t \<Rightarrow> cleanupExpired t st)
        (key \<mapsto> e\<lparr>count := count e + 1\<rparr>))"
    using checkRateLimit_increment [of st key e tick limit windowMs] by simp
  show "fst res = \<lparr>allowed = True, retryAfter = None, current = count e + 1\<rparr>"
    unfolding res_def by (simp add: c)
  show "snd res key = Some (e\<lparr>count := count e + 1\<rparr>)"
    unfolding res_def by (simp add: c)
next
  fix e assume a: "st key = Some e \<and> inWindow tick (resetAt e) \<and> limit \<le> count e"
  then have c: "checkRateLimit key limit windowMs tick st =
     (\<lparr>allowed = False,
       retryAfter = Some \<lceil>(of_int (resetAt e - tk_now tick) :: rat) / 1000\<rceil>,
       current = count e\<rparr>,
      (case tk_sweep tick of None \<Rightarrow> st | Some t \<Rightarrow> cleanupExpired t st))"
    using checkRateLimit_reject [of st key e tick limit windowMs] by simp
  have le: "tk_now tick \<le> resetAt e" using a by (simp add: inWindow_def)
  show "fst res = \<lparr>allowed = False,
                   retryAfter = Some \<lceil>(of_int (resetAt e - tk_now tick) :: rat) / 1000\<rceil>,
                   current = count e\<rparr>"
    unfolding res_def by (simp add: c)
  show "snd res key = Some e"
    unfolding res_def using a swept_in_window [of st key e tick] by (simp add: c)
  show "0 \<le> \<lceil>(of_int (resetAt e - tk_now tick) :: rat) / 1000\<rceil>"
    using le by (rule retry_nonneg)
  show "tk_now tick < resetAt e \<longleftrightarrow> 0 < \<lceil>(of_int (resetAt e - tk_now tick) :: rat) / 1000\<rceil>"
    by (simp add: zero_less_ceiling)
next
  fix t2 t3
  assume a: "(st key = None \<or> (\<exists>e. st key = Some e \<and> tk_now tick > resetAt e))
          \<and> inWindow t2 (tk_now tick + windowMs) \<and> inWindow t3 (tk_now tick + windowMs)"
  then show "fst (checkMany key 2 windowMs [tick, t2, t3] st) =
          [\<lparr>allowed = True, retryAfter = None, current = 1\<rparr>,
           \<lparr>allowed = True, retryAfter = None, current = 2\<rparr>,
           \<lparr>allowed = False,
             retryAfter = Some \<lceil>(of_int (tk_now tick + windowMs - tk_now t3) :: rat) / 1000\<rceil>,
             current = 2\<rparr>]"
    using three_calls [of st key tick t2 windowMs t3] by blast
qed

lemma checkRateLimit_window_example:
  "fst (checkRateLimit ''k'' 2 60000 (tickAt 1000) Map.empty)
     = \<lparr>allowed = True, retryAfter = None, current = 1\<rparr>
   \<and> inWindow (tickAt 2000) 61000
   \<and> fst (checkRateLimit ''k'' 2 60000 (tickAt 2000) [''k'' \<mapsto> \<lparr>count = 1, resetAt = 61000\<rparr>])
     = \<lparr>allowed = True, retryAfter = None, current = 2\<rparr>
   \<and> inWindow (tickAt 3000) 61000
   \<and> fst (checkRateLimit ''k'' 2 60000 (tickAt 3000) [''k'' \<mapsto> \<lparr>count = 2, resetAt = 61000\<rparr>])
     = \<lparr>allowed = False, retryAfter = Some 58, current = 2\<rparr>
   \<and> fst (checkMany ''k'' 2 60000 [tickAt 1000, tickAt 2000, tickAt 3000] Map.empty)
     = [\<lparr>allowed = True, retryAfter = None, current = 1\<rparr>,
        \<lparr>allowed = True, retryAfter = None, current = 2\<rparr>,
        \<lparr>allowed = False, retryAfter = Some 58, current = 2\<rparr>]"
proof -
  have c: "\<lceil>(58 :: rat)\<rceil> = 58"
    by simp
  have w: "inWindow (tickAt 2000) 61000" "inWindow (tickAt 3000) 61000"
    by (simp_all add: inWindow_def tickAt_def)
  show ?thesis
    using
      checkRateLimit_window
        [where st = Map.empty and key = "''k''" and tick = "tickAt 1000" and windowMs = 60000
           and limit = 2]
      checkRateLimit_window
        [where st = "[''k'' \<mapsto> \<lparr>count = 1, resetAt = 61000\<rparr>]" and key = "''k''"
           and tick = "tickAt 2000" and windowMs = 60000 and limit = 2]
      checkRateLimit_window
        [where st = "[''k'' \<mapsto> \<lparr>count = 2, resetAt = 61000\<rparr>]" and key = "''k''"
           and tick = "tickAt 3000" and windowMs = 60000 and limit = 2]
      w
    by (simp add: tickAt_def c)
qed

text \<open>
  C9, on the code. The expiry test of \<open>checkRateLimit\<close> is \<open>now > entry.resetAt\<close>, so a call
  at the very millisecond of the reset still finds the entry. Two calls at \<open>1000\<close> with the
  limit 2 and a window of \<open>60000\<close> leave \<open>{count: 2, resetAt: 61000}\<close>; a third call at
  \<open>61000\<close> is rejected with \<open>current = 2\<close> and \<open>retryAfter = ceil(0 / 1000) = 0\<close>, which is
  not positive, while a call at \<open>61001\<close> opens a new window. Through the handler: after two
  saves of user B at \<open>1000\<close>, a save at \<open>60999\<close> is answered 429 with \<open>retryAfter\<close> 1 in the
  body and in the \<open>Retry-After\<close> header; a save at \<open>61000\<close> is answered 429 with
  \<open>retryAfter\<close> 0 in the body and, by \<open>retryAfter || 60\<close>, 60 in the header.
\<close>

theorem checkRateLimit_retry_zero_at_reset:
  "fst (checkMany ''k'' 2 60000 [tickAt 1000, tickAt 1000, tickAt 61000] Map.empty) =
     [\<lparr>allowed = True, retryAfter = None, current = 1\<rparr>,
      \<lparr>allowed = True, retryAfter = None, current = 2\<rparr>,
      \<lparr>allowed = False, retryAfter = Some 0, current = 2\<rparr>]
   \<and> snd (checkMany ''k'' 2 60000 [tickAt 1000, tickAt 1000] Map.empty) ''k''
       = Some \<lparr>count = 2, resetAt = 61000\<rparr>
   \<and> fst (checkMany ''k'' 2 60000 [tickAt 1000, tickAt 1000, tickAt 61001] Map.empty) =
     [\<lparr>allowed = True, retryAfter = None, current = 1\<rparr>,
      \<lparr>allowed = True, retryAfter = None, current = 2\<rparr>,
      \<lparr>allowed = True, retryAfter = None, current = 1\<rparr>]
   \<and> rateLimitStore twiceSaved (''user:'' @ userB @ '':save:minute'')
       = Some \<lparr>count = 2, resetAt = 61000\<rparr>
   \<and> fst (onRequestPut envOn (worldAt 60999) ''s'' saveReq twiceSaved)
       = RateLimit429
           (Some \<lparr>re_message = ''Too many saves per minute'', re_retryAfter = Some 1,
                   re_current = 2, re_limit = 2\<rparr>)
           (Some 1) 1
   \<and> fst (onRequestPut envOn (worldAt 61000) ''s'' saveReq twiceSaved)
       = RateLimit429
           (Some \<lparr>re_message = ''Too many saves per minute'', re_retryAfter = Some 0,
                   re_current = 2, re_limit = 2\<rparr>)
           (Some 0) 60"
proof -
  have "fst (checkMany ''k'' 2 60000 [tickAt 1000, tickAt 1000, tickAt 61000] Map.empty) =
     [\<lparr>allowed = True, retryAfter = None, current = 1\<rparr>,
      \<lparr>allowed = True, retryAfter = None, current = 2\<rparr>,
      \<lparr>allowed = False, retryAfter = Some 0, current = 2\<rparr>]"
    by (simp add: tickAt_def checkRateLimit_def Let_def)
  moreover have "snd (checkMany ''k'' 2 60000 [tickAt 1000, tickAt 1000] Map.empty) ''k''
       = Some \<lparr>count = 2, resetAt = 61000\<rparr>"
    by (simp add: tickAt_def checkRateLimit_def Let_def)
  moreover have
    "fst (checkMany ''k'' 2 60000 [tickAt 1000, tickAt 1000, tickAt 61001] Map.empty) =
     [\<lparr>allowed = True, retryAfter = None, current = 1\<rparr>,
      \<lparr>allowed = True, retryAfter = None, current = 2\<rparr>,
      \<lparr>allowed = True, retryAfter = None, current = 1\<rparr>]"
    by (simp add: tickAt_def checkRateLimit_def Let_def)
  moreover have "rateLimitStore twiceSaved (''user:'' @ userB @ '':save:minute'')
       = Some \<lparr>count = 2, resetAt = 61000\<rparr>"
    by code_simp
  moreover have "fst (onRequestPut envOn (worldAt 60999) ''s'' saveReq twiceSaved)
       = RateLimit429
           (Some \<lparr>re_message = ''Too many saves per minute'', re_retryAfter = Some 1,
                   re_current = 2, re_limit = 2\<rparr>)
           (Some 1) 1"
    by code_simp
  moreover have "fst (onRequestPut envOn (worldAt 61000) ''s'' saveReq twiceSaved)
       = RateLimit429
           (Some \<lparr>re_message = ''Too many saves per minute'', re_retryAfter = Some 0,
                   re_current = 2, re_limit = 2\<rparr>)
           (Some 0) 60"
    by code_simp
  ultimately show ?thesis
    by (intro conjI)
qed

subsection \<open>The update handler: its exits\<close>

lemma validateUserId_nonempty: "validateUserId uid \<Longrightarrow> uid \<noteq> []"
  by (auto simp: validateUserId_def eval_nat_numeral)

lemma admit_response:
  assumes "admit env w slug incoming rl = (Some r, rl')"
  shows "(\<exists>m. r = ErrorResponse m 400) \<or> (\<exists>e ra h. r = RateLimit429 e ra h)"
  using assms
  by (auto simp: admit_def Let_def rateLimitResponse_def split: if_splits prod.splits option.splits)

lemma admit_None:
  assumes "admit env w slug incoming rl = (None, rl')"
  shows "valid (validateList incoming (envNumber (MAX_ITEMS env) 500))"
    and "\<And>uid. rq_userId incoming = Some uid \<Longrightarrow> validateUserId uid"
  using assms
  by (auto simp: admit_def Let_def split: if_splits prod.splits option.splits)

lemma onRequestPut_Json200:
  assumes "onRequestPut env w slug incoming srv = (Json200 upd, srv')"
  shows "\<exists>rl raw. admit env w slug incoming (rateLimitStore srv) = (None, rl)
      \<and> MATRIX_STORE srv (getListKey slug) = Some raw
      \<and> (\<forall>v. rq_version incoming = Some v \<longrightarrow> v = version (kv_value raw))
      \<and> upd = updatedList env w incoming (kv_value raw)
      \<and> size_allowed (checkListSize (w_bytes w upd) env)
      \<and> srv' = srv\<lparr>rateLimitStore := rl,
                    MATRIX_STORE := (MATRIX_STORE srv)
                      (getListKey slug \<mapsto>
                         \<lparr>kv_value = upd,
                          kv_expirationTtl = envNumber (LIST_TTL_DAYS env) 30 * 24 * 60 * 60\<rparr>)\<rparr>"
proof -
  obtain ro rl where a: "admit env w slug incoming (rateLimitStore srv) = (ro, rl)"
    by (cases "admit env w slug incoming (rateLimitStore srv)")
  show ?thesis
  proof (cases ro)
    case (Some r)
    with a assms admit_response [of env w slug incoming "rateLimitStore srv" r rl]
    show ?thesis by (auto simp: onRequestPut_def Let_def)
  next
    case None
    with a assms show ?thesis
      by (auto simp: onRequestPut_def Let_def split: option.splits if_splits)
  qed
qed

lemma onRequestPut_admitted:
  assumes "admit env w slug incoming (rateLimitStore srv) = (None, rl)"
    and "MATRIX_STORE srv (getListKey slug) = Some raw"
  shows "onRequestPut env w slug incoming srv =
     (if (case rq_version incoming of None \<Rightarrow> False | Some v \<Rightarrow> v \<noteq> version (kv_value raw))
      then (Conflict409 (kv_value raw), srv\<lparr>rateLimitStore := rl\<rparr>)
      else if \<not> size_allowed (checkListSize (w_bytes w (updatedList env w incoming (kv_value raw))) env)
      then (ErrorResponse (size_error (checkListSize (w_bytes w (updatedList env w incoming (kv_value raw))) env)) 413,
            srv\<lparr>rateLimitStore := rl\<rparr>)
      else (Json200 (updatedList env w incoming (kv_value raw)),
            srv\<lparr>rateLimitStore := rl,
                 MATRIX_STORE := (MATRIX_STORE srv)
                   (getListKey slug \<mapsto>
                      \<lparr>kv_value = updatedList env w incoming (kv_value raw),
                       kv_expirationTtl = envNumber (LIST_TTL_DAYS env) 30 * 24 * 60 * 60\<rparr>)\<rparr>))"
  using assms by (simp add: onRequestPut_def Let_def)

lemma onRequestPut_not_admitted:
  assumes "admit env w slug incoming (rateLimitStore srv) = (Some r, rl)"
  shows "onRequestPut env w slug incoming srv = (r, srv\<lparr>rateLimitStore := rl\<rparr>)"
  using assms by (simp add: onRequestPut_def Let_def)

text \<open>
  C1, as the code has it. Let a list be stored under the slug. The update is answered
  with the conflict response (409) carrying the stored document exactly when the request
  passes the checks that come before the list is read (format of the user id, rate
  limits, shape of the request) and supplies a version that differs from the stored one.
  A conflict response always carries the stored document, and the key-value store is
  then unchanged. When no version is supplied, a request that passes those checks is
  applied to the stored list whatever its version: unless the result is too large, the
  answer is the updated list, whose version is the stored version plus one, and that
  list is stored.
\<close>

theorem conflict_iff_stale_version:
  assumes "MATRIX_STORE srv (getListKey slug) = Some raw"
  shows "(fst (onRequestPut env w slug incoming srv) = Conflict409 (kv_value raw)
            \<longleftrightarrow> fst (admit env w slug incoming (rateLimitStore srv)) = None
                \<and> (\<exists>v. rq_version incoming = Some v \<and> v \<noteq> version (kv_value raw)))
    \<and> (\<forall>d. fst (onRequestPut env w slug incoming srv) = Conflict409 d \<longrightarrow>
           d = kv_value raw
         \<and> MATRIX_STORE (snd (onRequestPut env w slug incoming srv)) = MATRIX_STORE srv)
    \<and> (rq_version incoming = None
         \<and> fst (admit env w slug incoming (rateLimitStore srv)) = None
         \<and> size_allowed (checkListSize (w_bytes w (updatedList env w incoming (kv_value raw))) env)
        \<longrightarrow> fst (onRequestPut env w slug incoming srv)
              = Json200 (updatedList env w incoming (kv_value raw))
          \<and> version (updatedList env w incoming (kv_value raw)) = version (kv_value raw) + 1
          \<and> map_option kv_value
               (MATRIX_STORE (snd (onRequestPut env w slug incoming srv)) (getListKey slug))
              = Some (updatedList env w incoming (kv_value raw)))"
proof -
  obtain ro rl where a: "admit env w slug incoming (rateLimitStore srv) = (ro, rl)"
    by (cases "admit env w slug incoming (rateLimitStore srv)")
  show ?thesis
  proof (cases ro)
    case (Some r)
    have "\<And>d. r \<noteq> Conflict409 d"
      using admit_response [of env w slug incoming "rateLimitStore srv" r rl] a Some by auto
    then show ?thesis
      using a Some onRequestPut_not_admitted [of env w slug incoming srv r rl] by simp
  next
    case None
    then show ?thesis
      using a assms onRequestPut_admitted [of env w slug incoming srv rl raw]
      by (auto simp: updatedList_def Let_def split: option.splits)
  qed
qed

theorem conflict_iff_stale_version_witness:
  "MATRIX_STORE server0 (getListKey ''s'') = Some \<lparr>kv_value = list0, kv_expirationTtl = 2592000\<rparr>
   \<and> fst (admit envOff world0 ''s'' staleReq (rateLimitStore server0)) = None
   \<and> rq_version staleReq = Some 0 \<and> 0 \<noteq> version list0
   \<and> fst (onRequestPut envOff world0 ''s'' staleReq server0) = Conflict409 list0
   \<and> MATRIX_STORE (snd (onRequestPut envOff world0 ''s'' staleReq server0)) = MATRIX_STORE server0
   \<and> rq_version titleReq = None
   \<and> fst (admit envOff world0 ''s'' titleReq (rateLimitStore server0)) = None
   \<and> version (updatedList envOff world0 titleReq list0) = 2
   \<and> title (updatedList envOff world0 titleReq list0) = ''New title''
   \<and> fst (onRequestPut envOff world0 ''s'' titleReq server0)
        = Json200 (updatedList envOff world0 titleReq list0)"
proof -
  have s: "MATRIX_STORE server0 (getListKey ''s'') = Some \<lparr>kv_value = list0, kv_expirationTtl = 2592000\<rparr>"
    by (simp add: server0_def)
  have a1: "fst (admit envOff world0 ''s'' staleReq (rateLimitStore server0)) = None"
    by (simp add: admit_def staleReq_def noReq_def envOff_def checkListRateLimits_def
        validateList_def envNumber_def)
  have a2: "fst (admit envOff world0 ''s'' titleReq (rateLimitStore server0)) = None"
    by (simp add: admit_def titleReq_def noReq_def envOff_def checkListRateLimits_def
        validateList_def envNumber_def)
  have sz: "size_allowed (checkListSize (w_bytes world0 (updatedList envOff world0 titleReq list0)) envOff)"
    by (simp add: checkListSize_def world0_def envOff_def envNumber_def)
  have t: "title (updatedList envOff world0 titleReq list0) = ''New title''"
    by (simp add: updatedList_def Let_def titleReq_def noReq_def sanitizeTitle_def trim_def
        slice0_def isSpace_def)
  have v: "rq_version staleReq = Some 0" "version list0 = 1" "rq_version titleReq = None"
    by (simp_all add: staleReq_def titleReq_def noReq_def list0_def)
  note t1 = conflict_iff_stale_version [OF s, of envOff world0 staleReq]
  note t2 = conflict_iff_stale_version [OF s, of envOff world0 titleReq]
  have c: "fst (onRequestPut envOff world0 ''s'' staleReq server0) = Conflict409 list0"
    using t1 a1 v by simp
  have k: "MATRIX_STORE (snd (onRequestPut envOff world0 ''s'' staleReq server0)) = MATRIX_STORE server0"
    using t1 c by simp
  have u: "fst (onRequestPut envOff world0 ''s'' titleReq server0)
        = Json200 (updatedList envOff world0 titleReq list0)
      \<and> version (updatedList envOff world0 titleReq list0) = 2"
    using t2 a2 sz v by simp
  show ?thesis
    using s a1 a2 v c k u t by simp
qed

text \<open>
  C1 as stated fails for a request that is stopped before the versions are compared: a
  request with the stale version \<open>0\<close> against the stored version \<open>1\<close>, whose scale has
  \<open>min \<ge> max\<close>, is answered with 400, not with the conflict response.
\<close>

theorem conflict_behind_validation_counterexample:
  "MATRIX_STORE server0 (getListKey ''s'') = Some \<lparr>kv_value = list0, kv_expirationTtl = 2592000\<rparr>
   \<and> rq_version staleBadScale = Some 0 \<and> version list0 = 1
   \<and> fst (onRequestPut envOff world0 ''s'' staleBadScale server0)
       = ErrorResponse (Some ScaleMinNotLessThanMax) 400"
proof -
  have a: "admit envOff world0 ''s'' staleBadScale (rateLimitStore server0)
        = (Some (ErrorResponse (Some ScaleMinNotLessThanMax) 400), rateLimitStore server0)"
    by (simp add: admit_def staleBadScale_def noReq_def envOff_def checkListRateLimits_def
        validateList_def envNumber_def)
  show ?thesis
    using onRequestPut_not_admitted [OF a]
    by (simp add: server0_def staleBadScale_def noReq_def list0_def)
qed

subsection \<open>Versions\<close>

lemma onRequestPost_slug:
  assumes "fst (onRequestPost env w xUserId body srv) = Created201 slug'"
  shows "slug' = generateSlug (sanitizeTitle (cr_title body)) (w_suffix w)"
  using assms
  by (auto simp: onRequestPost_def Let_def rateLimitResponse_def split: prod.splits if_splits)

lemma onRequestPost_store:
  "MATRIX_STORE (snd (onRequestPost env w xUserId body srv)) =
     (if (\<exists>slug'. fst (onRequestPost env w xUserId body srv) = Created201 slug')
      then (MATRIX_STORE srv)
             (getListKey (generateSlug (sanitizeTitle (cr_title body)) (w_suffix w)) \<mapsto>
                \<lparr>kv_value = createdList env w body,
                 kv_expirationTtl = envNumber (LIST_TTL_DAYS env) 30 * 24 * 60 * 60\<rparr>)
      else MATRIX_STORE srv)"
  by (auto simp: onRequestPost_def Let_def rateLimitResponse_def createdList_def
      split: prod.splits if_splits)

text \<open>
  C3. A create request that is answered with 201 has stored, under the key of the slug it
  returns, a list with version 1 and no items, and whatever entry a create request
  writes into the store is such a list. An update that is answered with 200 found a list
  stored under the slug, and the list it returns and stores has the version of that
  list plus one, which is greater.
\<close>

theorem version_starts_at_one_and_increments:
  "(\<forall>slug'. fst (onRequestPost env w xUserId body srv) = Created201 slug' \<longrightarrow>
       (\<exists>e. MATRIX_STORE (snd (onRequestPost env w xUserId body srv)) (getListKey slug') = Some e
          \<and> version (kv_value e) = 1 \<and> items (kv_value e) = []))
   \<and> (\<forall>k e. MATRIX_STORE (snd (onRequestPost env w xUserId body srv)) k = Some e
          \<and> MATRIX_STORE srv k \<noteq> Some e \<longrightarrow>
        version (kv_value e) = 1 \<and> items (kv_value e) = [])
   \<and> (\<forall>upd. fst (onRequestPut env w slug incoming srv) = Json200 upd \<longrightarrow>
       (\<exists>raw. MATRIX_STORE srv (getListKey slug) = Some raw
          \<and> version upd = version (kv_value raw) + 1
          \<and> version (kv_value raw) < version upd
          \<and> map_option kv_value
               (MATRIX_STORE (snd (onRequestPut env w slug incoming srv)) (getListKey slug))
             = Some upd))"
proof (intro conjI allI impI)
  fix slug'
  assume "fst (onRequestPost env w xUserId body srv) = Created201 slug'"
  then show "\<exists>e. MATRIX_STORE (snd (onRequestPost env w xUserId body srv)) (getListKey slug') = Some e
          \<and> version (kv_value e) = 1 \<and> items (kv_value e) = []"
    using onRequestPost_slug [of env w xUserId body srv slug']
      onRequestPost_store [of env w xUserId body srv]
    by (auto simp: createdList_def)
next
  fix k e
  assume a: "MATRIX_STORE (snd (onRequestPost env w xUserId body srv)) k = Some e
          \<and> MATRIX_STORE srv k \<noteq> Some e"
  have "kv_value e = createdList env w body"
    using a onRequestPost_store [of env w xUserId body srv] by (auto split: if_splits)
  then show "version (kv_value e) = 1" and "items (kv_value e) = []"
    by (simp_all add: createdList_def)
next
  fix upd
  assume a: "fst (onRequestPut env w slug incoming srv) = Json200 upd"
  obtain srv' where p: "onRequestPut env w slug incoming srv = (Json200 upd, srv')"
    using a by (cases "onRequestPut env w slug incoming srv") simp
  from onRequestPut_Json200 [OF p] obtain rl raw where
    r: "MATRIX_STORE srv (getListKey slug) = Some raw"
      "upd = updatedList env w incoming (kv_value raw)"
      "srv' = srv\<lparr>rateLimitStore := rl,
                    MATRIX_STORE := (MATRIX_STORE srv)
                      (getListKey slug \<mapsto>
                         \<lparr>kv_value = upd,
                          kv_expirationTtl = envNumber (LIST_TTL_DAYS env) 30 * 24 * 60 * 60\<rparr>)\<rparr>"
    by blast
  have v: "version upd = version (kv_value raw) + 1"
    using r(2) by (simp add: updatedList_def Let_def)
  show "\<exists>raw. MATRIX_STORE srv (getListKey slug) = Some raw
          \<and> version upd = version (kv_value raw) + 1
          \<and> version (kv_value raw) < version upd
          \<and> map_option kv_value
               (MATRIX_STORE (snd (onRequestPut env w slug incoming srv)) (getListKey slug))
             = Some upd"
    using r(1) v p r(3) by simp
qed

theorem version_starts_at_one_and_increments_witness:
  "fst (onRequestPost envOff world0 None emptyBody server0) = Created201 ''deadbeef''
   \<and> map_option (version \<circ> kv_value)
        (MATRIX_STORE (snd (onRequestPost envOff world0 None emptyBody server0))
           (getListKey ''deadbeef'')) = Some 1
   \<and> map_option (items \<circ> kv_value)
        (MATRIX_STORE (snd (onRequestPost envOff world0 None emptyBody server0))
           (getListKey ''deadbeef'')) = Some []
   \<and> MATRIX_STORE server0 (getListKey ''deadbeef'') = None
   \<and> map_option (version \<circ> kv_value) (MATRIX_STORE server0 (getListKey ''s'')) = Some 1
   \<and> fst (onRequestPut envOff world0 ''s'' titleReq server0)
        = Json200 (updatedList envOff world0 titleReq list0)
   \<and> version (updatedList envOff world0 titleReq list0) = 2"
proof -
  have c: "fst (onRequestPost envOff world0 None emptyBody server0) = Created201 ''deadbeef''"
    by (simp add: onRequestPost_def Let_def envOff_def checkUserRateLimits_def emptyBody_def
        sanitizeTitle_def generateSlug_def world0_def checkListSize_def envNumber_def)
  have k: "MATRIX_STORE server0 (getListKey ''deadbeef'') = None"
    "MATRIX_STORE server0 (getListKey ''s'') = Some \<lparr>kv_value = list0, kv_expirationTtl = 2592000\<rparr>"
    by (simp_all add: server0_def getListKey_def)
  have a: "admit envOff world0 ''s'' titleReq (rateLimitStore server0) = (None, rateLimitStore server0)"
    by (simp add: admit_def titleReq_def noReq_def envOff_def checkListRateLimits_def
        validateList_def envNumber_def)
  have sz: "size_allowed (checkListSize (w_bytes world0 (updatedList envOff world0 titleReq list0)) envOff)"
    by (simp add: checkListSize_def world0_def envOff_def envNumber_def)
  have u: "fst (onRequestPut envOff world0 ''s'' titleReq server0)
        = Json200 (updatedList envOff world0 titleReq list0)"
    using onRequestPut_admitted [OF a k(2)] sz by (simp add: titleReq_def noReq_def)
  have v: "version list0 = 1"
    by (simp add: list0_def)
  note t = version_starts_at_one_and_increments
    [of envOff world0 None emptyBody server0 "''s''" titleReq]
  from t c obtain e where
    e: "MATRIX_STORE (snd (onRequestPost envOff world0 None emptyBody server0))
          (getListKey ''deadbeef'') = Some e" "version (kv_value e) = 1" "items (kv_value e) = []"
    by blast
  from t u obtain raw where
    r: "MATRIX_STORE server0 (getListKey ''s'') = Some raw"
       "version (updatedList envOff world0 titleReq list0) = version (kv_value raw) + 1"
    by blast
  have "raw = \<lparr>kv_value = list0, kv_expirationTtl = 2592000\<rparr>"
    using r(1) k(2) by simp
  then have "version (updatedList envOff world0 titleReq list0) = 2"
    using r(2) v by simp
  then show ?thesis
    using c e k u v by simp
qed

subsection \<open>The merge\<close>

lemma slice0_id: "int (length xs) \<le> n \<Longrightarrow> slice0 n xs = xs"
  by (simp add: slice0_def)

lemma validateList_bound:
  assumes "valid (validateList incoming m)" and "rq_items incoming = Some incs"
  shows "int (length incs) \<le> m"
  using assms by (auto simp: validateList_def split: if_splits)


lemma mergeUserScore_frame:
  "u \<noteq> uid \<Longrightarrow> map_of (scores (mergeUserScore item uid s scl)) u = map_of (scores item) u"
  "item_id (mergeUserScore item uid s scl) = item_id item"
  "map_of (scores (mergeUserScore item uid s scl)) uid = Some (normalizeUserScore (asPartialScore s) scl)"
  "avgScore (mergeUserScore item uid s scl) = calculateAverageScore (scores (mergeUserScore item uid s scl))"
  by (simp_all add: mergeUserScore_def Let_def update_conv')


lemma mergeUserItem_triple:
  assumes "i < length incs" "in_g (incs ! i) = Some g" "in_u (incs ! i) = Some u"
    "in_t (incs ! i) = Some t"
  shows "map_of (scores (mergeUserItem uid scl incs (i, item))) uid =
      Some (normalizeUserScore \<lparr>pu_g = Some g, pu_u = Some u, pu_t = Some t, pu_score = Some (g * u * t)\<rparr> scl)"
    and "avgScore (mergeUserItem uid scl incs (i, item)) =
      calculateAverageScore (scores (mergeUserItem uid scl incs (i, item)))"
  using assms
  by (auto simp: mergeUserItem_def Let_def mergeUserScore_frame isUserItemUpdate_def
      asPartialScore_def split: option.splits)

lemma length_baseItems: "length (baseItems w maxItems existing scl incs) = length incs"
  by (simp add: baseItems_def)

lemma processItems_user:
  assumes "rq_userId incoming = Some uid" "uid \<noteq> []" "rq_items incoming = Some incs"
    "int (length incs) \<le> maxItems"
  shows "processItems w maxItems incoming existing scl =
     map (mergeUserItem uid scl incs) (enumerate 0 (baseItems w maxItems existing scl incs))"
  using assms by (simp add: processItems_def Let_def slice0_id baseItems_def)

lemma processItems_user_nth:
  assumes "rq_userId incoming = Some uid" "uid \<noteq> []" "rq_items incoming = Some incs"
    "int (length incs) \<le> maxItems" "i < length incs"
  shows "length (processItems w maxItems incoming existing scl) = length incs"
    and "processItems w maxItems incoming existing scl ! i =
      mergeUserItem uid scl incs (i, baseItems w maxItems existing scl incs ! i)"
  using assms
  by (simp_all add: processItems_user [OF assms(1-4)] nth_enumerate_eq length_baseItems)

lemma processItems_replace:
  assumes "rq_userId incoming = None" "rq_items incoming = Some incs"
    "int (length incs) \<le> maxItems"
  shows "processItems w maxItems incoming existing scl =
     map (\<lambda>(i, item). normalizeItem item scl maxItems (w_uuid w 2 i)) (enumerate 0 incs)"
  using assms by (simp add: processItems_def Let_def slice0_id)





lemma onRequestPut_user_items:
  assumes "onRequestPut env w slug incoming srv = (Json200 upd, srv')"
    and "rq_userId incoming = Some uid" and "rq_items incoming = Some incs"
    and "MATRIX_STORE srv (getListKey slug) = Some raw"
  shows "length (items upd) = length incs"
    and "\<And>i. i < length incs \<Longrightarrow>
           items upd ! i = mergeUserItem uid (scale upd) incs
             (i, baseItems w (envNumber (MAX_ITEMS env) 500) (kv_value raw) (scale upd) incs ! i)"
proof -
  from onRequestPut_Json200 [OF assms(1)] assms(4) obtain rl where
    a: "admit env w slug incoming (rateLimitStore srv) = (None, rl)"
    and u: "upd = updatedList env w incoming (kv_value raw)"
    by auto
  have ne: "uid \<noteq> []"
    using admit_None(2) [OF a assms(2)] by (rule validateUserId_nonempty)
  have b: "int (length incs) \<le> envNumber (MAX_ITEMS env) 500"
    using admit_None(1) [OF a] assms(3) by (rule validateList_bound)
  have i: "items upd = processItems w (envNumber (MAX_ITEMS env) 500) incoming (kv_value raw) (scale upd)"
    using u by (simp add: updatedList_def Let_def)
  show "length (items upd) = length incs"
    using i processItems_user [OF assms(2) ne assms(3) b] by (simp add: length_baseItems)
  show "\<And>i. i < length incs \<Longrightarrow>
           items upd ! i = mergeUserItem uid (scale upd) incs
             (i, baseItems w (envNumber (MAX_ITEMS env) 500) (kv_value raw) (scale upd) incs ! i)"
    using i processItems_user_nth(2) [OF assms(2) ne assms(3) b] by simp
qed

lemma onRequestPut_applied:
  assumes "fst (admit env w slug incoming (rateLimitStore srv)) = None"
    and "MATRIX_STORE srv (getListKey slug) = Some raw"
    and "rq_version incoming = None \<or> rq_version incoming = Some (version (kv_value raw))"
    and "size_allowed (checkListSize (w_bytes w (updatedList env w incoming (kv_value raw))) env)"
  shows "onRequestPut env w slug incoming srv =
     (Json200 (updatedList env w incoming (kv_value raw)),
      srv\<lparr>rateLimitStore := snd (admit env w slug incoming (rateLimitStore srv)),
           MATRIX_STORE := (MATRIX_STORE srv)
             (getListKey slug \<mapsto>
                \<lparr>kv_value = updatedList env w incoming (kv_value raw),
                 kv_expirationTtl = envNumber (LIST_TTL_DAYS env) 30 * 24 * 60 * 60\<rparr>)\<rparr>)"
proof -
  have a: "admit env w slug incoming (rateLimitStore srv)
         = (None, snd (admit env w slug incoming (rateLimitStore srv)))"
    using assms(1) by (cases "admit env w slug incoming (rateLimitStore srv)") simp
  show ?thesis
    using onRequestPut_admitted [OF a assms(2)] assms(3,4) by auto
qed

lemma server0_store:
  "MATRIX_STORE server0 (getListKey ''s'') = Some \<lparr>kv_value = list0, kv_expirationTtl = 2592000\<rparr>"
  by (simp add: server0_def)

lemma world0_size: "size_allowed (checkListSize (w_bytes world0 l) envOff)"
  by (simp add: checkListSize_def world0_def envOff_def envNumber_def)

lemma list0_version: "version list0 = 1"
  by (simp add: list0_def)

lemma server0_applied:
  assumes "fst (admit envOff world0 ''s'' incoming (rateLimitStore server0)) = None"
    and "rq_version incoming = None \<or> rq_version incoming = Some 1"
  shows "onRequestPut envOff world0 ''s'' incoming server0 =
     (Json200 (updatedList envOff world0 incoming list0),
      server0\<lparr>rateLimitStore := snd (admit envOff world0 ''s'' incoming (rateLimitStore server0)),
           MATRIX_STORE := (MATRIX_STORE server0)
             (getListKey ''s'' \<mapsto>
                \<lparr>kv_value = updatedList envOff world0 incoming list0,
                 kv_expirationTtl = envNumber (LIST_TTL_DAYS envOff) 30 * 24 * 60 * 60\<rparr>)\<rparr>)"
  using onRequestPut_applied [OF assms(1) server0_store] assms(2) world0_size
  by (simp add: list0_version)




subsection \<open>What the merge writes\<close>

lemma onRequestPut_Json200E:
  assumes "onRequestPut env w slug incoming srv = (Json200 upd, srv')"
  obtains rl raw where "admit env w slug incoming (rateLimitStore srv) = (None, rl)"
    and "MATRIX_STORE srv (getListKey slug) = Some raw"
    and "upd = updatedList env w incoming (kv_value raw)"
  using onRequestPut_Json200 [OF assms] by (elim exE conjE) (rule that, assumption+)

lemma clamp_ge_lo: "lo \<le> clamp v lo hi"
  by (simp add: clamp_def)

lemma normalizeScale_valid:
  "1 \<le> smin (normalizeScale sc envMin envMax)"
  "smin (normalizeScale sc envMin envMax) < smax (normalizeScale sc envMin envMax)"
  by (simp_all add: normalizeScale_def Let_def clamp_ge_lo)

lemma normalizeUserScore_props:
  "us_score (normalizeUserScore sc scl)
     = us_g (normalizeUserScore sc scl) * us_u (normalizeUserScore sc scl)
       * us_t (normalizeUserScore sc scl)"
  "smin scl \<le> smax scl \<Longrightarrow>
     smin scl \<le> us_g (normalizeUserScore sc scl) \<and> us_g (normalizeUserScore sc scl) \<le> smax scl
   \<and> smin scl \<le> us_u (normalizeUserScore sc scl) \<and> us_u (normalizeUserScore sc scl) \<le> smax scl
   \<and> smin scl \<le> us_t (normalizeUserScore sc scl) \<and> us_t (normalizeUserScore sc scl) \<le> smax scl"
  by (simp_all add: normalizeUserScore_def Let_def calculateScore_def clamp_range)

lemma normalizeItem_scores:
  "scores (normalizeItem item scl m uuid) = (case in_scores item of None \<Rightarrow> [] | Some sm \<Rightarrow> sm)"
  by (simp add: normalizeItem_def Let_def)

lemma onRequestPut_replace_items:
  assumes "onRequestPut env w slug incoming srv = (Json200 upd, srv')"
    and "rq_userId incoming = None" and "rq_items incoming = Some incs"
  shows "items upd = map (\<lambda>(i, item). normalizeItem item (scale upd)
                          (envNumber (MAX_ITEMS env) 500) (w_uuid w 2 i)) (enumerate 0 incs)"
proof -
  from assms(1) obtain rl raw where
    a: "admit env w slug incoming (rateLimitStore srv) = (None, rl)"
    and "MATRIX_STORE srv (getListKey slug) = Some raw"
    and u: "upd = updatedList env w incoming (kv_value raw)"
    by (rule onRequestPut_Json200E)
  have b: "int (length incs) \<le> envNumber (MAX_ITEMS env) 500"
    using admit_None(1) [OF a] assms(3) by (rule validateList_bound)
  have "items upd = processItems w (envNumber (MAX_ITEMS env) 500) incoming (kv_value raw) (scale upd)"
    using u by (simp add: updatedList_def Let_def)
  then show ?thesis
    using processItems_replace [OF assms(2,3) b] by simp
qed

lemma onRequestPut_scale:
  assumes "onRequestPut env w slug incoming srv = (Json200 upd, srv')"
    and "rq_scale incoming \<noteq> None"
  shows "1 \<le> smin (scale upd) \<and> smin (scale upd) < smax (scale upd)"
proof -
  from assms(1) obtain rl raw where
    "admit env w slug incoming (rateLimitStore srv) = (None, rl)"
    and "MATRIX_STORE srv (getListKey slug) = Some raw"
    and u: "upd = updatedList env w incoming (kv_value raw)"
    by (rule onRequestPut_Json200E)
  show ?thesis
    using u assms(2) by (auto simp: updatedList_def Let_def normalizeScale_valid)
qed

text \<open>
  C4, as the code has it. Let an update with items be answered with 200 and take the
  position of any incoming item. If the update carries a user identifier and that
  incoming item has all of \<open>g\<close>, \<open>u\<close> and \<open>t\<close>, then the item at that position of the stored
  list holds, under that user, the \<open>normalizeUserScore\<close> of the three values on the scale of
  the stored list: its score is the product of its factors, which lie within the scale
  when \<open>min \<le> max\<close>. If the update carries no user identifier, the scores map of the item
  at that position is the one the incoming item supplied (or empty), as it came. A scale
  that the update supplies ends up with \<open>1 \<le> min < max\<close>.
\<close>

theorem merged_scores_are_normalized:
  assumes put: "onRequestPut env w slug incoming srv = (Json200 upd, srv')"
    and its: "rq_items incoming = Some incs" and i: "i < length incs"
  shows "i < length (items upd)
    \<and> (\<forall>uid g u t. rq_userId incoming = Some uid \<and> in_g (incs ! i) = Some g
           \<and> in_u (incs ! i) = Some u \<and> in_t (incs ! i) = Some t \<longrightarrow>
         (\<exists>s. map_of (scores (items upd ! i)) uid = Some s
            \<and> s = normalizeUserScore
                    \<lparr>pu_g = Some g, pu_u = Some u, pu_t = Some t, pu_score = Some (g * u * t)\<rparr>
                    (scale upd)
            \<and> us_score s = us_g s * us_u s * us_t s
            \<and> (smin (scale upd) \<le> smax (scale upd) \<longrightarrow>
                 smin (scale upd) \<le> us_g s \<and> us_g s \<le> smax (scale upd)
               \<and> smin (scale upd) \<le> us_u s \<and> us_u s \<le> smax (scale upd)
               \<and> smin (scale upd) \<le> us_t s \<and> us_t s \<le> smax (scale upd))))
    \<and> (rq_userId incoming = None \<longrightarrow>
         scores (items upd ! i) = (case in_scores (incs ! i) of None \<Rightarrow> [] | Some sm \<Rightarrow> sm))
    \<and> (rq_scale incoming \<noteq> None \<longrightarrow>
         1 \<le> smin (scale upd) \<and> smin (scale upd) < smax (scale upd))"
proof -
  from put obtain rl raw where
    "admit env w slug incoming (rateLimitStore srv) = (None, rl)"
    and raw: "MATRIX_STORE srv (getListKey slug) = Some raw"
    and "upd = updatedList env w incoming (kv_value raw)"
    by (rule onRequestPut_Json200E)
  have len: "i < length (items upd)"
  proof (cases "rq_userId incoming")
    case None
    then show ?thesis
      using onRequestPut_replace_items [OF put None its] i by simp
  next
    case (Some uid)
    then show ?thesis
      using onRequestPut_user_items(1) [OF put Some its raw] i by simp
  qed
  have user: "\<exists>s. map_of (scores (items upd ! i)) uid = Some s
            \<and> s = normalizeUserScore
                    \<lparr>pu_g = Some g, pu_u = Some u, pu_t = Some t, pu_score = Some (g * u * t)\<rparr>
                    (scale upd)
            \<and> us_score s = us_g s * us_u s * us_t s
            \<and> (smin (scale upd) \<le> smax (scale upd) \<longrightarrow>
                 smin (scale upd) \<le> us_g s \<and> us_g s \<le> smax (scale upd)
               \<and> smin (scale upd) \<le> us_u s \<and> us_u s \<le> smax (scale upd)
               \<and> smin (scale upd) \<le> us_t s \<and> us_t s \<le> smax (scale upd))"
    if h: "rq_userId incoming = Some uid \<and> in_g (incs ! i) = Some g
           \<and> in_u (incs ! i) = Some u \<and> in_t (incs ! i) = Some t" for uid g u t
  proof -
    have n: "items upd ! i = mergeUserItem uid (scale upd) incs
             (i, baseItems w (envNumber (MAX_ITEMS env) 500) (kv_value raw) (scale upd) incs ! i)"
      using onRequestPut_user_items(2) [OF put _ its raw i] h by simp
    have "map_of (scores (items upd ! i)) uid =
        Some (normalizeUserScore
                \<lparr>pu_g = Some g, pu_u = Some u, pu_t = Some t, pu_score = Some (g * u * t)\<rparr>
                (scale upd))"
      using mergeUserItem_triple(1) [OF i] h n by simp
    then show ?thesis
      using normalizeUserScore_props by blast
  qed
  have repl: "scores (items upd ! i) = (case in_scores (incs ! i) of None \<Rightarrow> [] | Some sm \<Rightarrow> sm)"
    if "rq_userId incoming = None"
    using onRequestPut_replace_items [OF put that its] i
    by (simp add: nth_enumerate_eq normalizeItem_scores)
  show ?thesis
    using len user repl onRequestPut_scale [OF put] by blast
qed

lemma admit_off:
  "fst (admit envOff world0 ''s'' scaleReq (rateLimitStore server0)) = None"
  "fst (admit envOff world0 ''s'' replaceReq (rateLimitStore server0)) = None"
  "fst (admit envOff world0 ''s'' swapReq (rateLimitStore server0)) = None"
  "fst (admit envOff world0 ''s'' addReq (rateLimitStore server0)) = None"
  by code_simp+

lemma versions:
  "rq_version scaleReq = None \<or> rq_version scaleReq = Some 1"
  "rq_version replaceReq = None \<or> rq_version replaceReq = Some 1"
  "rq_version swapReq = None \<or> rq_version swapReq = Some 1"
  "rq_version addReq = None \<or> rq_version addReq = Some 1"
  by (simp_all add: scaleReq_def scoreReq_def replaceReq_def swapReq_def addReq_def noReq_def)

theorem merged_scores_are_normalized_witness:
  "fst (onRequestPut envOff world0 ''s'' scaleReq server0)
     = Json200 (updatedList envOff world0 scaleReq list0)
   \<and> rq_userId scaleReq = Some userB \<and> rq_scale scaleReq \<noteq> None
   \<and> scale (updatedList envOff world0 scaleReq list0) = \<lparr>smin = 1, smax = 3\<rparr>
   \<and> map_of (scores (items (updatedList envOff world0 scaleReq list0) ! 0)) userB
       = Some \<lparr>us_g = 3, us_u = 3, us_t = 3, us_score = 27\<rparr>
   \<and> fst (onRequestPut envOff world0 ''s'' replaceReq server0)
     = Json200 (updatedList envOff world0 replaceReq list0)
   \<and> rq_userId replaceReq = None
   \<and> scores (items (updatedList envOff world0 replaceReq list0) ! 0)
       = [(userA, \<lparr>us_g = 1, us_u = 1, us_t = 1, us_score = 999\<rparr>)]"
proof -
  note p1 = server0_applied [OF admit_off(1) versions(1)]
  note p2 = server0_applied [OF admit_off(2) versions(2)]
  have i1: "rq_items scaleReq = Some
       [noItem\<lparr>in_id := Some ''a'', in_g := Some 4, in_u := Some 4, in_t := Some 4\<rparr>,
        noItem\<lparr>in_id := Some ''b''\<rparr>]"
    "rq_userId scaleReq = Some userB" "rq_scale scaleReq \<noteq> None"
    by (simp_all add: scaleReq_def scoreReq_def noReq_def)
  have i2: "rq_items replaceReq = Some
       [noItem\<lparr>in_id := Some ''a'', in_label := Some ''Item A'',
               in_scores := Some [(userA, \<lparr>us_g = 1, us_u = 1, us_t = 1, us_score = 999\<rparr>)]\<rparr>]"
    "rq_userId replaceReq = None"
    by (simp_all add: replaceReq_def noReq_def)
  have sc: "scale (updatedList envOff world0 scaleReq list0) = \<lparr>smin = 1, smax = 3\<rparr>"
    by code_simp
  have n: "normalizeUserScore
             \<lparr>pu_g = Some 4, pu_u = Some 4, pu_t = Some 4, pu_score = Some (4 * 4 * 4)\<rparr>
             \<lparr>smin = 1, smax = 3\<rparr> = \<lparr>us_g = 3, us_u = 3, us_t = 3, us_score = 27\<rparr>"
    by (simp add: normalizeUserScore_def clamp_def numberOr_def calculateScore_def)
  have t1: "map_of (scores (items (updatedList envOff world0 scaleReq list0) ! 0)) userB
       = Some \<lparr>us_g = 3, us_u = 3, us_t = 3, us_score = 27\<rparr>"
    using merged_scores_are_normalized [OF p1 i1(1), of 0] i1(2) sc n
    by (simp add: noItem_def)
  have t2: "scores (items (updatedList envOff world0 replaceReq list0) ! 0)
       = [(userA, \<lparr>us_g = 1, us_u = 1, us_t = 1, us_score = 999\<rparr>)]"
    using merged_scores_are_normalized [OF p2 i2(1), of 0] i2(2)
    by (simp add: noItem_def)
  show ?thesis
    using p1 p2 i1 i2 sc t1 t2 by simp
qed

text \<open>
  C4 as stated fails on the full replacement: an update without user identifier whose
  item carries \<open>{g:1, u:1, t:1, score:999}\<close> for user A is answered with 200, and the
  stored list holds that entry, whose score is not \<open>g*u*t\<close>.
\<close>

theorem replacement_persists_client_score_counterexample:
  "rq_userId replaceReq = None
   \<and> fst (onRequestPut envOff world0 ''s'' replaceReq server0)
       = Json200
          \<lparr>title = ''T'',
            items = [\<lparr>item_id = ''a'', label = ''Item A'',
                      scores = [(userA, \<lparr>us_g = 1, us_u = 1, us_t = 1, us_score = 999\<rparr>)],
                      avgScore = None, item_notes = None\<rparr>],
            scale = scale15, updatedAt = ''2024-01-01T00:00:00.000Z'', version = 2\<rparr>
   \<and> map_option kv_value
        (MATRIX_STORE (snd (onRequestPut envOff world0 ''s'' replaceReq server0)) (getListKey ''s''))
       = Some
          \<lparr>title = ''T'',
            items = [\<lparr>item_id = ''a'', label = ''Item A'',
                      scores = [(userA, \<lparr>us_g = 1, us_u = 1, us_t = 1, us_score = 999\<rparr>)],
                      avgScore = None, item_notes = None\<rparr>],
            scale = scale15, updatedAt = ''2024-01-01T00:00:00.000Z'', version = 2\<rparr>"
proof -
  have e: "updatedList envOff world0 replaceReq list0 =
     \<lparr>title = ''T'',
       items = [\<lparr>item_id = ''a'', label = ''Item A'',
                 scores = [(userA, \<lparr>us_g = 1, us_u = 1, us_t = 1, us_score = 999\<rparr>)],
                 avgScore = None, item_notes = None\<rparr>],
       scale = scale15, updatedAt = ''2024-01-01T00:00:00.000Z'', version = 2\<rparr>"
    by code_simp
  have u: "rq_userId replaceReq = None"
    by (simp add: replaceReq_def noReq_def)
  show ?thesis
    using server0_applied [OF admit_off(2) versions(2)] u by (simp add: e)
qed

text \<open>
  C5, on the code. User B sends the two stored items and a third, new one (a structural
  change) whose \<open>scores\<close> field holds an entry for user A: the item is added with that
  scores map, not with an empty one.
\<close>

theorem structural_add_keeps_incoming_scores:
  "find (\<lambda>e. Some (item_id e) = Some ''n'') (items list0) = None
   \<and> fst (onRequestPut envOff world0 ''s'' addReq server0)
       = Json200 (updatedList envOff world0 addReq list0)
   \<and> length (items (updatedList envOff world0 addReq list0)) = 3
   \<and> items (updatedList envOff world0 addReq list0) ! 2
       = \<lparr>item_id = ''n'', label = ''New'',
          scores = [(userA, \<lparr>us_g = 9, us_u = 9, us_t = 9, us_score = 1\<rparr>)],
          avgScore = None, item_notes = None\<rparr>"
proof -
  have f: "find (\<lambda>e. Some (item_id e) = Some ''n'') (items list0) = None"
    by (simp add: list0_def itemA_def itemB_def)
  have l: "length (items (updatedList envOff world0 addReq list0)) = 3"
    by code_simp
  have e: "items (updatedList envOff world0 addReq list0) ! 2
       = \<lparr>item_id = ''n'', label = ''New'',
          scores = [(userA, \<lparr>us_g = 9, us_u = 9, us_t = 9, us_score = 1\<rparr>)],
          avgScore = None, item_notes = None\<rparr>"
    by code_simp
  show ?thesis
    using server0_applied [OF admit_off(4) versions(4)] f l e by simp
qed

text \<open>
  C6, on the code. The stored list has the items \<open>a\<close>, \<open>b\<close>; user B sends \<open>b\<close> with the
  scores \<open>(3,3,3)\<close> first and \<open>a\<close> second. The count is unchanged, so the scores are merged
  by position: they end up in item \<open>a\<close>, and item \<open>b\<close>, for which they were supplied,
  has none.
\<close>

theorem merge_goes_by_position:
  "fst (onRequestPut envOff world0 ''s'' swapReq server0)
       = Json200 (updatedList envOff world0 swapReq list0)
   \<and> items (updatedList envOff world0 swapReq list0) =
      [\<lparr>item_id = ''a'', label = ''Item A'',
         scores = [(userA, scoreA), (userB, \<lparr>us_g = 3, us_u = 3, us_t = 3, us_score = 27\<rparr>)],
         avgScore = Some \<lparr>av_g = 4, av_u = 4, av_t = 7 / 2, av_score = 127 / 2, av_count = 2\<rparr>,
         item_notes = None\<rparr>,
       \<lparr>item_id = ''b'', label = ''Item B'', scores = [], avgScore = None, item_notes = None\<rparr>]"
proof -
  have e: "items (updatedList envOff world0 swapReq list0) =
      [\<lparr>item_id = ''a'', label = ''Item A'',
         scores = [(userA, scoreA), (userB, \<lparr>us_g = 3, us_u = 3, us_t = 3, us_score = 27\<rparr>)],
         avgScore = Some \<lparr>av_g = 4, av_u = 4, av_t = 7 / 2, av_score = 127 / 2, av_count = 2\<rparr>,
         item_notes = None\<rparr>,
       \<lparr>item_id = ''b'', label = ''Item B'', scores = [], avgScore = None, item_notes = None\<rparr>]"
    by code_simp
  show ?thesis
    using server0_applied [OF admit_off(3) versions(3)] e by simp
qed

subsection \<open>Quota of a failed update\<close>












end
